theory Spec2Isabelle
  imports Main "HOL-Library.Word"
begin

section \<open>JavaScript strings\<close>

text \<open>
  A JavaScript string is a sequence of UTF-16 code units; \<open>length\<close>, \<open>slice\<close>,
  \<open>trim\<close>, \<open>startsWith\<close>, \<open>includes\<close> and \<open>split\<close> all work on code units.
  The literals of \<^verbatim>\<open>api/chat.ts\<close> are ASCII (except the ellipsis U+2026 of the mock
  reply) and are written \<open>js ''...''\<close>.
\<close>

type_synonym jsstring = "16 word list"

definition js :: "string \<Rightarrow> jsstring" where
  "js s = map of_char s"

text \<open>
  \<open>is_ws\<close> is the set that both \<^verbatim>\<open>String.prototype.trim\<close> and the regular
  expression class \<^verbatim>\<open>\s\<close> use: WhiteSpace and LineTerminator of ECMAScript
  (TAB, LF, VT, FF, CR, SP, NBSP, U+1680, U+2000..U+200A, U+2028, U+2029, U+202F,
  U+205F, U+3000, U+FEFF), all of them single code units.
\<close>

definition is_ws :: "16 word \<Rightarrow> bool" where
  "is_ws c \<longleftrightarrow>
     c = 0x09 \<or> c = 0x0A \<or> c = 0x0B \<or> c = 0x0C \<or> c = 0x0D \<or> c = 0x20 \<or> c = 0xA0 \<or>
     c = 0x1680 \<or> (0x2000 \<le> c \<and> c \<le> 0x200A) \<or> c = 0x2028 \<or> c = 0x2029 \<or>
     c = 0x202F \<or> c = 0x205F \<or> c = 0x3000 \<or> c = 0xFEFF"

definition trim :: "jsstring \<Rightarrow> jsstring" where
  "trim s = rev (dropWhile is_ws (rev (dropWhile is_ws s)))"

text \<open>
  \<^verbatim>\<open>toLowerCase\<close>: the letters A..Z, and the two other code units whose lower case
  contains an ASCII letter (U+0130 gives \<open>i\<close> followed by U+0307, the Kelvin sign U+212A
  gives \<open>k\<close>). Every other code unit is lowered by JavaScript to code units outside
  ASCII and is left as it is here: the handler only looks for the ASCII patterns
  \<^verbatim>\<open>text/plain\<close> and \<^verbatim>\<open>application/json\<close> in the result.
\<close>

definition lower_unit :: "16 word \<Rightarrow> jsstring" where
  "lower_unit c =
     (if 0x41 \<le> c \<and> c \<le> 0x5A then [c + 0x20]
      else if c = 0x130 then [0x69, 0x307]
      else if c = 0x212A then [0x6B]
      else [c])"

definition toLowerCase :: "jsstring \<Rightarrow> jsstring" where
  "toLowerCase s = concat (map lower_unit s)"

definition startsWith :: "jsstring \<Rightarrow> jsstring \<Rightarrow> bool" where
  "startsWith s p \<longleftrightarrow> take (length p) s = p"

text \<open>\<^verbatim>\<open>s.includes(p)\<close>: \<open>p\<close> occurs in \<open>s\<close> as a contiguous run.\<close>

fun includes_str :: "jsstring \<Rightarrow> jsstring \<Rightarrow> bool" where
  "includes_str [] p = (p = [])"
| "includes_str (c # cs) p = (startsWith (c # cs) p \<or> includes_str cs p)"

text \<open>\<^verbatim>\<open>s.split(',')\<close>: the pieces between commas; the empty string gives one empty piece.\<close>

fun split_comma :: "jsstring \<Rightarrow> jsstring list" where
  "split_comma [] = [[]]"
| "split_comma (c # cs) =
     (if c = 0x2C then [] # split_comma cs
      else (case split_comma cs of
              [] \<Rightarrow> [[c]]
            | p # ps \<Rightarrow> (c # p) # ps))"

text \<open>\<^verbatim>\<open>s.replace(/\s+/g, ' ')\<close>: every maximal run of white space becomes one space.\<close>

function collapse_ws :: "jsstring \<Rightarrow> jsstring" where
  "collapse_ws [] = []"
| "collapse_ws (c # cs) =
     (if is_ws c then 0x20 # collapse_ws (dropWhile is_ws cs)
      else c # collapse_ws cs)"
  by pat_completeness auto
termination
  by (relation "measure length") (auto simp: less_Suc_eq_le length_dropWhile_le)

section \<open>JSON.parse\<close>

text \<open>
  \<^verbatim>\<open>JSON.parse\<close> is a built-in of the runtime. It is modelled after the JSON grammar
  of ECMAScript: a lexer producing tokens and a pushdown recogniser building the value.
  A number keeps its lexeme: the handler never looks at a number's value. An object
  keeps its members in source order; a property read takes the last member of that name.
  \<open>None\<close> stands for the SyntaxError that \<^verbatim>\<open>JSON.parse\<close> throws.
\<close>

datatype json =
    JNull
  | JBool bool
  | JNum jsstring
  | JStr jsstring
  | JArr "json list"
  | JObj "(jsstring \<times> json) list"

datatype token =
    LBrace | RBrace | LBrack | RBrack | Colon | Comma
  | TStr jsstring | TNum jsstring | TTrue | TFalse | TNull

definition is_digit :: "16 word \<Rightarrow> bool" where
  "is_digit c \<longleftrightarrow> 0x30 \<le> c \<and> c \<le> 0x39"

definition hex_value :: "16 word \<Rightarrow> 16 word option" where
  "hex_value c =
     (if 0x30 \<le> c \<and> c \<le> 0x39 then Some (c - 0x30)
      else if 0x41 \<le> c \<and> c \<le> 0x46 then Some (c - 0x37)
      else if 0x61 \<le> c \<and> c \<le> 0x66 then Some (c - 0x57)
      else None)"

text \<open>The four hexadecimal digits of a \<^verbatim>\<open>\uXXXX\<close> escape.\<close>

definition hex4 :: "jsstring \<Rightarrow> 16 word option" where
  "hex4 ds =
     (case map hex_value ds of
        [Some a, Some b, Some c, Some d] \<Rightarrow> Some (a * 0x1000 + b * 0x100 + c * 0x10 + d)
      | _ \<Rightarrow> None)"

definition escape :: "16 word \<Rightarrow> 16 word option" where
  "escape e =
     (if e = 0x22 then Some 0x22
      else if e = 0x5C then Some 0x5C
      else if e = 0x2F then Some 0x2F
      else if e = 0x62 then Some 0x08
      else if e = 0x66 then Some 0x0C
      else if e = 0x6E then Some 0x0A
      else if e = 0x72 then Some 0x0D
      else if e = 0x74 then Some 0x09
      else None)"

definition prepend :: "16 word \<Rightarrow> (jsstring \<times> jsstring) option \<Rightarrow> (jsstring \<times> jsstring) option" where
  "prepend c r = (case r of None \<Rightarrow> None | Some (s, rest) \<Rightarrow> Some (c # s, rest))"

text \<open>
  \<open>scan_string\<close> reads a string literal after its opening quote and returns its value
  and the input after the closing quote. Control characters below U+0020 must be escaped.
\<close>

fun scan_string :: "jsstring \<Rightarrow> (jsstring \<times> jsstring) option" where
  "scan_string [] = None"
| "scan_string (c # cs) =
     (if c = 0x22 then Some ([], cs)
      else if c = 0x5C then
        (case cs of
           [] \<Rightarrow> None
         | e # cs' \<Rightarrow>
             if e = 0x75 then
               (case hex4 (take 4 cs') of
                  None \<Rightarrow> None
                | Some u \<Rightarrow> prepend u (scan_string (drop 4 cs')))
             else
               (case escape e of
                  None \<Rightarrow> None
                | Some x \<Rightarrow> prepend x (scan_string cs')))
      else if c < 0x20 then None
      else prepend c (scan_string cs))"

text \<open>
  \<open>scan_number\<close> reads \<^verbatim>\<open>-? (0 | [1-9][0-9]*) (. [0-9]+)? ([eE] [+-]? [0-9]+)?\<close>
  and returns the lexeme and the rest of the input.
\<close>

definition scan_int :: "jsstring \<Rightarrow> (jsstring \<times> jsstring) option" where
  "scan_int s =
     (case s of
        [] \<Rightarrow> None
      | d # r \<Rightarrow>
          if d = 0x30 then Some ([d], r)
          else if is_digit d then Some (d # takeWhile is_digit r, dropWhile is_digit r)
          else None)"

definition scan_frac :: "jsstring \<Rightarrow> (jsstring \<times> jsstring) option" where
  "scan_frac s =
     (case s of
        [] \<Rightarrow> Some ([], [])
      | d # r \<Rightarrow>
          if d = 0x2E then
            (if takeWhile is_digit r = [] then None
             else Some (d # takeWhile is_digit r, dropWhile is_digit r))
          else Some ([], s))"

definition scan_exp :: "jsstring \<Rightarrow> (jsstring \<times> jsstring) option" where
  "scan_exp s =
     (case s of
        [] \<Rightarrow> Some ([], [])
      | e # r \<Rightarrow>
          if e = 0x65 \<or> e = 0x45 then
            (let sg = (case r of [] \<Rightarrow> [] | x # _ \<Rightarrow> if x = 0x2B \<or> x = 0x2D then [x] else []);
                 r' = drop (length sg) r
             in if takeWhile is_digit r' = [] then None
                else Some (e # sg @ takeWhile is_digit r', dropWhile is_digit r'))
          else Some ([], s))"

definition scan_number :: "jsstring \<Rightarrow> (jsstring \<times> jsstring) option" where
  "scan_number s =
     (let sg = (case s of [] \<Rightarrow> [] | x # _ \<Rightarrow> if x = 0x2D then [x] else [])
      in case scan_int (drop (length sg) s) of
           None \<Rightarrow> None
         | Some (i, s1) \<Rightarrow>
             (case scan_frac s1 of
                None \<Rightarrow> None
              | Some (f, s2) \<Rightarrow>
                  (case scan_exp s2 of
                     None \<Rightarrow> None
                   | Some (x, s3) \<Rightarrow> Some (sg @ i @ f @ x, s3))))"

definition cons_token :: "token \<Rightarrow> token list option \<Rightarrow> token list option" where
  "cons_token t r = map_option ((#) t) r"

lemma prepend_rest:
  "prepend c r = Some (s, rest) \<Longrightarrow> \<exists>s'. r = Some (s', rest)"
  by (auto simp: prepend_def split: option.splits)

lemma scan_string_rest: "scan_string cs = Some (s, rest) \<Longrightarrow> length rest < length cs"
proof (induction cs arbitrary: s rule: scan_string.induct)
  case 1
  then show ?case by simp
next
  case (2 c cs)
  show ?case
  proof (cases "c = 0x22")
    case True
    with "2.prems" show ?thesis by simp
  next
    case quote: False
    show ?thesis
    proof (cases "c = 0x5C")
      case False
      with quote "2.prems" obtain s' where "scan_string cs = Some (s', rest)"
        by (auto split: if_splits dest: prepend_rest)
      with "2.IH"(3) [of s'] quote False "2.prems" have "length rest < length cs"
        by (auto split: if_splits)
      then show ?thesis by simp
    next
      case True
      with quote "2.prems" obtain e cs' where cs: "cs = e # cs'"
        by (cases cs) auto
      show ?thesis
      proof (cases "e = 0x75")
        case u: True
        with quote True cs "2.prems" obtain x s' where
          "hex4 (take 4 cs') = Some x" "scan_string (drop 4 cs') = Some (s', rest)"
          by (auto split: option.splits dest: prepend_rest)
        with "2.IH"(1) [OF quote True cs u] have "length rest < length (drop 4 cs')"
          by blast
        with cs show ?thesis by simp
      next
        case nu: False
        with quote True cs "2.prems" obtain x s' where
          "escape e = Some x" "scan_string cs' = Some (s', rest)"
          by (auto split: option.splits dest: prepend_rest)
        with "2.IH"(2) [OF quote True cs nu] have "length rest < length cs'"
          by blast
        with cs show ?thesis by simp
      qed
    qed
  qed
qed

lemma scan_int_rest: "scan_int s = Some (i, rest) \<Longrightarrow> length rest < length s"
  by (auto simp: scan_int_def less_Suc_eq_le length_dropWhile_le split: list.splits if_splits)

lemma scan_frac_rest: "scan_frac s = Some (f, rest) \<Longrightarrow> length rest \<le> length s"
  by (auto simp: scan_frac_def le_SucI length_dropWhile_le split: list.splits if_splits)

lemma scan_exp_rest: "scan_exp s = Some (x, rest) \<Longrightarrow> length rest \<le> length s"
proof (cases s)
  case Nil
  assume "scan_exp s = Some (x, rest)"
  with Nil show ?thesis by (simp add: scan_exp_def)
next
  case (Cons e r)
  assume a: "scan_exp s = Some (x, rest)"
  show ?thesis
  proof (cases "e = 0x65 \<or> e = 0x45")
    case False
    with a Cons show ?thesis by (simp add: scan_exp_def)
  next
    case True
    with a Cons obtain k where "rest = dropWhile is_digit (drop k r)"
      by (auto simp: scan_exp_def Let_def split: if_splits)
    with length_dropWhile_le [of is_digit "drop k r"] have "length rest \<le> length r"
      by simp
    with Cons show ?thesis by simp
  qed
qed

lemma scan_number_rest:
  assumes "scan_number s = Some (n, rest)"
  shows "length rest < length s"
proof -
  from assms obtain k i s1 f s2 x where
    "scan_int (drop k s) = Some (i, s1)" "scan_frac s1 = Some (f, s2)"
    "scan_exp s2 = Some (x, rest)"
    by (auto simp: scan_number_def Let_def split: option.splits)
  then have "length s1 < length (drop k s)" "length s2 \<le> length s1" "length rest \<le> length s2"
    by (auto dest: scan_int_rest scan_frac_rest scan_exp_rest)
  then show ?thesis by simp
qed

text \<open>
  The lexer. White space between tokens is TAB, LF, CR and SP only. Anything that does
  not start a token is a syntax error.
\<close>

function lex :: "jsstring \<Rightarrow> token list option" where
  "lex [] = Some []"
| "lex (c # cs) =
     (if c = 0x20 \<or> c = 0x09 \<or> c = 0x0A \<or> c = 0x0D then lex cs
      else if c = 0x7B then cons_token LBrace (lex cs)
      else if c = 0x7D then cons_token RBrace (lex cs)
      else if c = 0x5B then cons_token LBrack (lex cs)
      else if c = 0x5D then cons_token RBrack (lex cs)
      else if c = 0x3A then cons_token Colon (lex cs)
      else if c = 0x2C then cons_token Comma (lex cs)
      else if c = 0x22 then
        (case scan_string cs of
           None \<Rightarrow> None
         | Some (s, rest) \<Rightarrow> cons_token (TStr s) (lex rest))
      else if c = 0x2D \<or> is_digit c then
        (case scan_number (c # cs) of
           None \<Rightarrow> None
         | Some (n, rest) \<Rightarrow> cons_token (TNum n) (lex rest))
      else if startsWith (c # cs) (js ''true'') then cons_token TTrue (lex (drop 3 cs))
      else if startsWith (c # cs) (js ''false'') then cons_token TFalse (lex (drop 4 cs))
      else if startsWith (c # cs) (js ''null'') then cons_token TNull (lex (drop 3 cs))
      else None)"
  by pat_completeness auto
termination
proof (relation "measure length", goal_cases)
  case 1
  show ?case by simp
next
  case (9 c cs x2 x y)
  then show ?case by (auto dest: scan_string_rest)
next
  case (10 c cs x2 x y)
  then show ?case by (auto dest: scan_number_rest)
qed auto

text \<open>
  The recogniser works on the token list with an explicit stack of open containers.
  \<open>InArr xs\<close> holds the elements read so far (latest first), \<open>InObj ms k\<close> the members
  read so far and the key waiting for its value.
\<close>

datatype frame = InArr "json list" | InObj "(jsstring \<times> json) list" "jsstring option"

datatype expect =
    EValue | EValueOrEnd | EKeyOrEnd | EKey | EColon | ECommaOrEnd | EDone json

text \<open>A complete value goes to the innermost open container, or is the result.\<close>

fun feed :: "json \<Rightarrow> frame list \<Rightarrow> (expect \<times> frame list) option" where
  "feed v [] = Some (EDone v, [])"
| "feed v (InArr xs # st) = Some (ECommaOrEnd, InArr (v # xs) # st)"
| "feed v (InObj ms (Some k) # st) = Some (ECommaOrEnd, InObj ((k, v) # ms) None # st)"
| "feed v (InObj ms None # st) = None"

definition scalar :: "token \<Rightarrow> json option" where
  "scalar t =
     (case t of
        TStr s \<Rightarrow> Some (JStr s)
      | TNum n \<Rightarrow> Some (JNum n)
      | TTrue \<Rightarrow> Some (JBool True)
      | TFalse \<Rightarrow> Some (JBool False)
      | TNull \<Rightarrow> Some JNull
      | _ \<Rightarrow> None)"

definition start_value :: "token \<Rightarrow> frame list \<Rightarrow> (expect \<times> frame list) option" where
  "start_value t st =
     (case t of
        LBrack \<Rightarrow> Some (EValueOrEnd, InArr [] # st)
      | LBrace \<Rightarrow> Some (EKeyOrEnd, InObj [] None # st)
      | _ \<Rightarrow> (case scalar t of None \<Rightarrow> None | Some v \<Rightarrow> feed v st))"

definition close_arr :: "frame list \<Rightarrow> (expect \<times> frame list) option" where
  "close_arr st =
     (case st of
        InArr xs # st' \<Rightarrow> feed (JArr (rev xs)) st'
      | _ \<Rightarrow> None)"

definition close_obj :: "frame list \<Rightarrow> (expect \<times> frame list) option" where
  "close_obj st =
     (case st of
        InObj ms None # st' \<Rightarrow> feed (JObj (rev ms)) st'
      | _ \<Rightarrow> None)"

definition set_key :: "jsstring \<Rightarrow> frame list \<Rightarrow> (expect \<times> frame list) option" where
  "set_key k st =
     (case st of
        InObj ms None # st' \<Rightarrow> Some (EColon, InObj ms (Some k) # st')
      | _ \<Rightarrow> None)"

definition pstep :: "expect \<Rightarrow> frame list \<Rightarrow> token \<Rightarrow> (expect \<times> frame list) option" where
  "pstep e st t =
     (case e of
        EValue \<Rightarrow> start_value t st
      | EValueOrEnd \<Rightarrow> (if t = RBrack then close_arr st else start_value t st)
      | EKeyOrEnd \<Rightarrow>
          (case t of RBrace \<Rightarrow> close_obj st | TStr k \<Rightarrow> set_key k st | _ \<Rightarrow> None)
      | EKey \<Rightarrow> (case t of TStr k \<Rightarrow> set_key k st | _ \<Rightarrow> None)
      | EColon \<Rightarrow> (if t = Colon then Some (EValue, st) else None)
      | ECommaOrEnd \<Rightarrow>
          (case t of
             Comma \<Rightarrow>
               (case st of
                  InArr xs # st' \<Rightarrow> Some (EValue, st)
                | InObj ms k # st' \<Rightarrow> Some (EKey, st)
                | [] \<Rightarrow> None)
           | RBrack \<Rightarrow> close_arr st
           | RBrace \<Rightarrow> close_obj st
           | _ \<Rightarrow> None)
      | EDone v \<Rightarrow> None)"

fun prun :: "expect \<Rightarrow> frame list \<Rightarrow> token list \<Rightarrow> json option" where
  "prun e st [] = (case e of EDone v \<Rightarrow> Some v | _ \<Rightarrow> None)"
| "prun e st (t # ts) =
     (case pstep e st t of
        None \<Rightarrow> None
      | Some (e', st') \<Rightarrow> prun e' st' ts)"

definition JSON_parse :: "jsstring \<Rightarrow> json option" where
  "JSON_parse s = (case lex s of None \<Rightarrow> None | Some ts \<Rightarrow> prun EValue [] ts)"

section \<open>The request handler (\<^verbatim>\<open>api/chat.ts\<close>)\<close>

subsection \<open>Configuration, request, response\<close>

text \<open>The environment variables the handler reads; \<open>None\<close> is an unset variable.\<close>

record env =
  ALLOWED_ORIGINS :: "jsstring option"
  DEV_ALLOW_MOCK :: "jsstring option"
  OPENAI_API_KEY :: "jsstring option"
  SYSTEM_PROMPT :: "jsstring option"

text \<open>
  The request as the handler uses it: the method, the header dictionary (Node gives the
  names in lower case) and the body. The body is \<^verbatim>\<open>unknown\<close> in the source: a string
  (\<open>Some (JStr s)\<close>: the local harness always passes one), a value the platform has
  already parsed, or \<^verbatim>\<open>undefined\<close> (\<open>None\<close>).
\<close>

record request =
  req_method :: "jsstring option"
  headers :: "string \<rightharpoonup> jsstring"
  body :: "json option"

text \<open>
  The response object: the headers set so far, the status code and what was sent.
  \<^verbatim>\<open>res.json(obj)\<close> sends \<open>Json obj\<close>, \<^verbatim>\<open>res.end()\<close> sends \<open>Ended\<close>.
\<close>

datatype payload = Unsent | Ended | Json json

record response =
  res_headers :: "string \<rightharpoonup> jsstring"
  statusCode :: int
  sent :: payload

definition res_setHeader :: "string \<Rightarrow> jsstring \<Rightarrow> response \<Rightarrow> response" where
  "res_setHeader name v res = res\<lparr>res_headers := (res_headers res)(name \<mapsto> v)\<rparr>"

definition res_status :: "int \<Rightarrow> response \<Rightarrow> response" where
  "res_status code res = res\<lparr>statusCode := code\<rparr>"

definition res_json :: "json \<Rightarrow> response \<Rightarrow> response" where
  "res_json obj res = res\<lparr>sent := Json obj\<rparr>"

definition res_end :: "response \<Rightarrow> response" where
  "res_end res = res\<lparr>sent := Ended\<rparr>"

text \<open>The object literals \<^verbatim>\<open>{ error: msg }\<close> and \<^verbatim>\<open>{ content }\<close>.\<close>

definition error_obj :: "jsstring \<Rightarrow> json" where
  "error_obj msg = JObj [(js ''error'', JStr msg)]"

definition content_obj :: "jsstring \<Rightarrow> json" where
  "content_obj c = JObj [(js ''content'', JStr c)]"

text \<open>
  A thrown value, as the \<^verbatim>\<open>catch\<close> clause reads it: \<^verbatim>\<open>err?.status\<close> and
  \<^verbatim>\<open>err?.message\<close>, each \<open>None\<close> when it is \<^verbatim>\<open>undefined\<close> or \<^verbatim>\<open>null\<close>
  (also when the thrown value itself is). The status is taken to be an integer.
\<close>

record js_error =
  err_status :: "int option"
  err_message :: "jsstring option"

text \<open>
  The upstream provider. \<open>chat_call\<close> is what the handler passes to
  \<^verbatim>\<open>new OpenAI({ apiKey })\<close> and \<^verbatim>\<open>chat.completions.create\<close>; the completion object
  is read through \<^verbatim>\<open>completion.choices?.[0]?.message?.content\<close>.
\<close>

record chat_call =
  apiKey :: "jsstring option"
  model :: string
  temperature :: string
  messages :: "(string \<times> jsstring) list"

record chat_message =
  content :: "jsstring option"

record choice =
  message :: "chat_message option"

record completion =
  choices :: "choice list option"

text \<open>
  What the runtime and the provider contribute: the message text of the SyntaxError that
  \<^verbatim>\<open>JSON.parse\<close> throws on a given input (engines differ), and the outcome of the
  upstream call, which either throws or returns a completion.
\<close>

record platform =
  syntax_error_message :: "jsstring \<Rightarrow> jsstring"
  create_completion :: "chat_call \<Rightarrow> js_error + completion"

subsection \<open>Origin policy\<close>

text \<open>\<^verbatim>\<open>x || ''\<close> for a string that may be undefined.\<close>

definition or_empty :: "jsstring option \<Rightarrow> jsstring" where
  "or_empty x = (case x of None \<Rightarrow> [] | Some s \<Rightarrow> s)"

definition parseAllowedOrigins :: "env \<Rightarrow> jsstring list" where
  "parseAllowedOrigins E =
     (let allowedOriginsEnv = or_empty (ALLOWED_ORIGINS E)
      in filter (\<lambda>o'. o' \<noteq> []) (map trim (split_comma allowedOriginsEnv)))"

definition isOriginAllowed :: "jsstring option \<Rightarrow> jsstring list \<Rightarrow> bool" where
  "isOriginAllowed origin allowed =
     (if js ''*'' \<in> set allowed then True
      else (case origin of
              None \<Rightarrow> False
            | Some orig \<Rightarrow> if orig = [] then False else orig \<in> set allowed))"

definition applyCors :: "jsstring option \<Rightarrow> jsstring list \<Rightarrow> response \<Rightarrow> response" where
  "applyCors origin allowed res =
     (let res1 =
        (if js ''*'' \<in> set allowed then
           res_setHeader ''Access-Control-Allow-Origin'' (js ''*'') res
         else (case origin of
                 None \<Rightarrow> res
               | Some orig \<Rightarrow>
                   if orig \<noteq> [] \<and> isOriginAllowed origin allowed
                   then res_setHeader ''Access-Control-Allow-Origin'' orig res
                   else res));
          res2 = res_setHeader ''Vary'' (js ''Origin'') res1;
          res3 = res_setHeader ''Access-Control-Allow-Methods'' (js ''POST, OPTIONS'') res2;
          res4 = res_setHeader ''Access-Control-Allow-Headers'' (js ''Content-Type'') res3
      in res_setHeader ''Access-Control-Max-Age'' (js ''86400'') res4)"

subsection \<open>Body decoding\<close>

definition syntax_error :: "platform \<Rightarrow> jsstring \<Rightarrow> js_error" where
  "syntax_error P s = \<lparr>err_status = None, err_message = Some (syntax_error_message P s)\<rparr>"

text \<open>
  \<^verbatim>\<open>typeof rawBody === 'string' ? JSON.parse(rawBody) : (rawBody as any) || {}\<close>.
  The falsy values \<^verbatim>\<open>undefined\<close>, \<^verbatim>\<open>null\<close> and \<^verbatim>\<open>false\<close> become the empty
  object. A number is kept also when it is 0: like \<^verbatim>\<open>{}\<close> it has no property
  \<^verbatim>\<open>text\<close>, and nothing else is read from it.
\<close>

definition parse_body :: "platform \<Rightarrow> json option \<Rightarrow> js_error + json" where
  "parse_body P rawBody =
     (case rawBody of
        Some (JStr s) \<Rightarrow>
          (case JSON_parse s of
             None \<Rightarrow> Inl (syntax_error P s)
           | Some v \<Rightarrow> Inr v)
      | Some JNull \<Rightarrow> Inr (JObj [])
      | Some (JBool False) \<Rightarrow> Inr (JObj [])
      | Some v \<Rightarrow> Inr v
      | None \<Rightarrow> Inr (JObj []))"

text \<open>\<^verbatim>\<open>typeof body?.text === 'string' ? body.text : ''\<close>.\<close>

definition text_of :: "json \<Rightarrow> jsstring" where
  "text_of b =
     (case b of
        JObj ms \<Rightarrow> (case map_of (rev ms) (js ''text'') of Some (JStr s) \<Rightarrow> s | _ \<Rightarrow> [])
      | _ \<Rightarrow> [])"

text \<open>
  Lines 61 to 78 of the handler: the text of the request by content type. \<open>Inl\<close> is an
  exception leaving this part; the last branch catches its own.
\<close>

definition decode :: "platform \<Rightarrow> request \<Rightarrow> js_error + jsstring" where
  "decode P req =
     (let contentType = toLowerCase (or_empty (headers req ''content-type''));
          rawBody = body req
      in if startsWith contentType (js ''text/plain'') then
           Inr (case rawBody of Some (JStr s) \<Rightarrow> s | _ \<Rightarrow> [])
         else if includes_str contentType (js ''application/json'') then
           (case parse_body P rawBody of
              Inl err \<Rightarrow> Inl err
            | Inr b \<Rightarrow> Inr (text_of b))
         else
           (case parse_body P rawBody of
              Inl err \<Rightarrow> Inr []
            | Inr b \<Rightarrow> Inr (text_of b)))"

subsection \<open>The handler\<close>

definition allowMock :: "env \<Rightarrow> bool" where
  "allowMock E \<longleftrightarrow> DEV_ALLOW_MOCK E = Some (js ''1'')"

definition hasKey :: "env \<Rightarrow> bool" where
  "hasKey E \<longleftrightarrow> (case OPENAI_API_KEY E of None \<Rightarrow> False | Some k \<Rightarrow> k \<noteq> [])"

definition systemPrompt :: "env \<Rightarrow> jsstring" where
  "systemPrompt E =
     trim (case SYSTEM_PROMPT E of
             None \<Rightarrow> js ''You are a helpful and concise assistant.''
           | Some p \<Rightarrow> if p = [] then js ''You are a helpful and concise assistant.'' else p)"

text \<open>\<^verbatim>\<open>completion.choices?.[0]\<close> and \<^verbatim>\<open>choice?.message?.content ?? ''\<close>.\<close>

definition first_content :: "completion \<Rightarrow> jsstring" where
  "first_content c =
     (case choices c of
        None \<Rightarrow> []
      | Some [] \<Rightarrow> []
      | Some (ch # _) \<Rightarrow>
          (case message ch of
             None \<Rightarrow> []
           | Some m \<Rightarrow> (case content m of None \<Rightarrow> [] | Some t \<Rightarrow> t)))"

text \<open>The outcome of a run: the response and the calls made to the provider.\<close>

record outcome =
  reply :: response
  upstream_calls :: "chat_call list"

definition respond :: "int \<Rightarrow> json \<Rightarrow> response \<Rightarrow> response" where
  "respond code obj res = res_json obj (res_status code res)"

definition succeed :: "jsstring \<Rightarrow> response \<Rightarrow> response" where
  "succeed c res =
     respond 200 (content_obj c)
       (res_setHeader ''Cache-Control'' (js ''no-store'')
         (res_setHeader ''Content-Type'' (js ''application/json'') res))"

text \<open>
  The body of the \<^verbatim>\<open>try\<close> statement (lines 60 to 115). The result is either the
  exception that leaves it or the response it sent, with the provider calls made.
\<close>

definition try_block ::
  "platform \<Rightarrow> env \<Rightarrow> request \<Rightarrow> response \<Rightarrow> (js_error + response) \<times> chat_call list" where
  "try_block P E req res =
     (case decode P req of
        Inl err \<Rightarrow> (Inl err, [])
      | Inr t \<Rightarrow>
          (let userText = trim t
           in if userText = [] then
                (Inr (respond 400 (error_obj (js ''Invalid request: text is required'')) res), [])
              else if length userText > 8000 then
                (Inr (respond 413
                   (error_obj (js ''Payload too large: text exceeds 8000 characters'')) res), [])
              else if allowMock E \<and> \<not> hasKey E then
                (let preview = trim (collapse_ws (take 180 userText))
                 in (Inr (succeed
                       (js ''Mocked response (DEV_ALLOW_MOCK=1). You said: \"'' @ preview @
                        (if length userText > 180 then [0x2026] else []) @ js ''\"'') res), []))
              else
                (let call = \<lparr>apiKey = OPENAI_API_KEY E, model = ''gpt-4o-mini'',
                              temperature = ''0.7'',
                              messages = [(''system'', systemPrompt E), (''user'', userText)]\<rparr>
                 in case create_completion P call of
                      Inl err \<Rightarrow> (Inl err, [call])
                    | Inr completion \<Rightarrow> (Inr (succeed (first_content completion) res), [call]))))"

text \<open>
  The \<^verbatim>\<open>catch\<close> clause: \<^verbatim>\<open>err?.status ?? 500\<close> and
  \<^verbatim>\<open>err?.message || 'Unknown error'\<close> (the empty string is falsy).
\<close>

definition catch_status :: "js_error \<Rightarrow> int" where
  "catch_status err = (case err_status err of None \<Rightarrow> 500 | Some s \<Rightarrow> s)"

definition catch_message :: "js_error \<Rightarrow> jsstring" where
  "catch_message err =
     (case err_message err of
        None \<Rightarrow> js ''Unknown error''
      | Some m \<Rightarrow> if m = [] then js ''Unknown error'' else m)"

definition handler :: "platform \<Rightarrow> env \<Rightarrow> request \<Rightarrow> response \<Rightarrow> outcome" where
  "handler P E req res0 =
     (let allowedOrigins = parseAllowedOrigins E;
          origin = headers req ''origin'';
          res = applyCors origin allowedOrigins res0
      in if req_method req = Some (js ''OPTIONS'') then
           \<lparr>reply = res_end (res_status 204 res), upstream_calls = []\<rparr>
         else if length allowedOrigins = 0 then
           \<lparr>reply = respond 500
              (error_obj (js ''Server misconfiguration: ALLOWED_ORIGINS is not set'')) res,
            upstream_calls = []\<rparr>
         else if \<not> isOriginAllowed origin allowedOrigins then
           \<lparr>reply = respond 403 (error_obj (js ''Origin not allowed'')) res,
            upstream_calls = []\<rparr>
         else if \<not> hasKey E \<and> \<not> allowMock E then
           \<lparr>reply = respond 500
              (error_obj (js ''Server misconfiguration: OPENAI_API_KEY is not set'')) res,
            upstream_calls = []\<rparr>
         else
           (case try_block P E req res of
              (Inr res', calls) \<Rightarrow> \<lparr>reply = res', upstream_calls = calls\<rparr>
            | (Inl err, calls) \<Rightarrow>
                \<lparr>reply = respond (catch_status err) (error_obj (catch_message err)) res,
                 upstream_calls = calls\<rparr>))"

section \<open>The local harness (\<^verbatim>\<open>readRequestBody\<close> and the server callback)\<close>

text \<open>
  The request stream is the sequence of events Node emits on it: \<^verbatim>\<open>data\<close> with a chunk
  of bytes, \<^verbatim>\<open>end\<close>, \<^verbatim>\<open>error\<close>. The reader state holds the two local variables of
  \<^verbatim>\<open>readRequestBody\<close>, the state of its promise (\<open>None\<close> while pending, then the
  rejection or the resolved text) and whether \<^verbatim>\<open>req.destroy()\<close> was called.
\<close>

datatype stream_event = Data "8 word list" | End | Error js_error

record reader =
  total :: nat
  chunks :: "8 word list list"
  settled :: "(js_error + jsstring) option"
  destroyed :: bool

text \<open>\<^verbatim>\<open>resolve\<close> and \<^verbatim>\<open>reject\<close>: a promise settles once, later calls do nothing.\<close>

definition settle :: "js_error + jsstring \<Rightarrow> reader \<Rightarrow> reader" where
  "settle v st = (case settled st of None \<Rightarrow> st\<lparr>settled := Some v\<rparr> | Some _ \<Rightarrow> st)"

definition too_large :: js_error where
  "too_large = \<lparr>err_status = Some 413, err_message = Some (js ''Payload too large'')\<rparr>"

definition on_data :: "nat \<Rightarrow> 8 word list \<Rightarrow> reader \<Rightarrow> reader" where
  "on_data maxBytes chunk st =
     (let st1 = st\<lparr>total := total st + length chunk\<rparr>
      in if total st1 > maxBytes then (settle (Inl too_large) st1)\<lparr>destroyed := True\<rparr>
         else st1\<lparr>chunks := chunks st1 @ [chunk]\<rparr>)"

text \<open>\<open>utf8\<close> is \<^verbatim>\<open>Buffer.prototype.toString('utf8')\<close>, a built-in taken as a parameter.\<close>

definition on_end :: "(8 word list \<Rightarrow> jsstring) \<Rightarrow> reader \<Rightarrow> reader" where
  "on_end utf8 st = settle (Inr (utf8 (concat (chunks st)))) st"

definition on_error :: "js_error \<Rightarrow> reader \<Rightarrow> reader" where
  "on_error err st = settle (Inl err) st"

text \<open>The listeners run on the events in order; a destroyed stream emits no more of them.\<close>

fun deliver :: "(8 word list \<Rightarrow> jsstring) \<Rightarrow> nat \<Rightarrow> reader \<Rightarrow> stream_event list \<Rightarrow> reader" where
  "deliver utf8 maxBytes st [] = st"
| "deliver utf8 maxBytes st (ev # evs) =
     (if destroyed st then st
      else deliver utf8 maxBytes
             (case ev of
                Data chunk \<Rightarrow> on_data maxBytes chunk st
              | End \<Rightarrow> on_end utf8 st
              | Error err \<Rightarrow> on_error err st) evs)"

definition readRequestBody ::
  "(8 word list \<Rightarrow> jsstring) \<Rightarrow> nat \<Rightarrow> stream_event list \<Rightarrow> reader" where
  "readRequestBody utf8 maxBytes evs =
     deliver utf8 maxBytes \<lparr>total = 0, chunks = [], settled = None, destroyed = False\<rparr> evs"

definition createReqLike ::
  "jsstring option \<Rightarrow> (string \<rightharpoonup> jsstring) \<Rightarrow> jsstring \<Rightarrow> request" where
  "createReqLike m hs b = \<lparr>req_method = m, headers = hs, body = Some (JStr b)\<rparr>"

text \<open>
  The server callback. What it writes on the response object is \<open>written\<close>:
  \<open>Plain code text\<close> is a response of the callback itself
  (\<^verbatim>\<open>res.statusCode = code; res.end(text)\<close>), \<open>Handled x\<close> is what the pipeline handler
  \<open>h\<close> did with the request, \<open>Pending\<close> a body promise that never settles. The byte
  ceiling is the default of \<^verbatim>\<open>readRequestBody\<close>.

  Request and response share one socket. \<^verbatim>\<open>req.destroy()\<close> runs inside the
  \<^verbatim>\<open>data\<close> listener, right after \<^verbatim>\<open>reject\<close>; the \<^verbatim>\<open>.catch\<close> callback that
  sets the status and calls \<^verbatim>\<open>res.end\<close> runs only afterwards, when the promise
  reaction is scheduled. \<open>socket_destroyed\<close> records that the socket was torn down before
  the callback wrote, and \<open>client_receives\<close> is what then reaches the client: nothing.
\<close>

datatype 'a written = Plain int "jsstring option" | Handled 'a | Pending

record 'a served =
  written :: "'a written"
  socket_destroyed :: bool

definition server ::
  "(request \<Rightarrow> 'a) \<Rightarrow> (8 word list \<Rightarrow> jsstring) \<Rightarrow> jsstring option \<Rightarrow> jsstring option \<Rightarrow>
     (string \<rightharpoonup> jsstring) \<Rightarrow> stream_event list \<Rightarrow> 'a served" where
  "server h utf8 url m hs evs =
     (if \<not> (case url of None \<Rightarrow> False | Some u \<Rightarrow> startsWith u (js ''/api/chat'')) then
        \<lparr>written = Plain 404 (Some (js ''Not Found'')), socket_destroyed = False\<rparr>
      else
        (let st = readRequestBody utf8 1000000 evs
         in \<lparr>written =
               (case settled st of
                  None \<Rightarrow> Pending
                | Some (Inl err) \<Rightarrow>
                    Plain (case err_status err of None \<Rightarrow> 400 | Some code \<Rightarrow> code)
                      (err_message err)
                | Some (Inr rawBody) \<Rightarrow> Handled (h (createReqLike m hs rawBody))),
             socket_destroyed = destroyed st\<rparr>))"

definition client_receives :: "'a served \<Rightarrow> 'a written option" where
  "client_receives s =
     (if socket_destroyed s then None
      else (case written s of Pending \<Rightarrow> None | w \<Rightarrow> Some w))"

section \<open>Sample inputs\<close>

text \<open>Concrete values on which the theorems below are instantiated.\<close>

definition fresh :: response where
  "fresh = \<lparr>res_headers = Map.empty, statusCode = 200, sent = Unsent\<rparr>"

definition sample_platform :: platform where
  "sample_platform =
     \<lparr>syntax_error_message = (\<lambda>s. js ''Unexpected token''),
      create_completion = (\<lambda>call. Inr \<lparr>choices = Some [\<lparr>message = Some \<lparr>content = Some (js ''Hi'')\<rparr>\<rparr>]\<rparr>)\<rparr>"

definition no_env :: env where
  "no_env = \<lparr>ALLOWED_ORIGINS = None, DEV_ALLOW_MOCK = None, OPENAI_API_KEY = None,
             SYSTEM_PROMPT = None\<rparr>"

definition mock_env :: env where
  "mock_env = \<lparr>ALLOWED_ORIGINS = Some (js ''https://a.com''), DEV_ALLOW_MOCK = Some (js ''1''),
               OPENAI_API_KEY = None, SYSTEM_PROMPT = None\<rparr>"

definition request_from :: "string \<Rightarrow> string \<Rightarrow> string \<Rightarrow> jsstring \<Rightarrow> request" where
  "request_from m orig ctype b =
     \<lparr>req_method = Some (js m),
      headers = [''origin'' \<mapsto> js orig, ''content-type'' \<mapsto> js ctype],
      body = Some (JStr b)\<rparr>"

text \<open>A provider whose call throws an error with an empty message, as \<^verbatim>\<open>new Error()\<close> has.\<close>

definition silent_failure :: js_error where
  "silent_failure = \<lparr>err_status = None, err_message = Some []\<rparr>"

definition failing_platform :: platform where
  "failing_platform = sample_platform\<lparr>create_completion := (\<lambda>call. Inl silent_failure)\<rparr>"

definition key_env :: env where
  "key_env = mock_env\<lparr>DEV_ALLOW_MOCK := None, OPENAI_API_KEY := Some (js ''sk-test'')\<rparr>"

text \<open>A text of 181 code units whose 180th is a blank: 179 letters \<open>a\<close>, a blank, a \<open>b\<close>.\<close>

definition cut_text :: jsstring where
  "cut_text = replicate 179 0x61 @ [0x20, 0x62]"

section \<open>Properties\<close>

subsection \<open>Auxiliary facts\<close>

lemma parseAllowedOrigins_no_env: "parseAllowedOrigins no_env = []"
  by (simp add: parseAllowedOrigins_def no_env_def or_empty_def trim_def)

lemma trim_a_com: "trim (js ''https://a.com'') = js ''https://a.com''"
  by (simp add: trim_def js_def is_ws_def)

lemma parseAllowedOrigins_mock_env: "parseAllowedOrigins mock_env = [js ''https://a.com'']"
proof -
  have "split_comma (js ''https://a.com'') = [js ''https://a.com'']"
    by (simp add: js_def)
  moreover have "js ''https://a.com'' \<noteq> []"
    by (simp add: js_def)
  ultimately show ?thesis
    by (simp add: parseAllowedOrigins_def mock_env_def or_empty_def trim_a_com)
qed

lemma res_headers_respond [simp]: "res_headers (respond code obj res) = res_headers res"
  by (simp add: respond_def res_json_def res_status_def)

lemma statusCode_respond [simp]: "statusCode (respond code obj res) = code"
  by (simp add: respond_def res_json_def res_status_def)

lemma sent_respond [simp]: "sent (respond code obj res) = Json obj"
  by (simp add: respond_def res_json_def res_status_def)

lemma isOriginAllowed_a_com:
  "isOriginAllowed (Some (js ''https://a.com'')) [js ''https://a.com'']"
  by (simp add: isOriginAllowed_def js_def)

lemma decode_text_plain:
  "decode P (request_from m orig ''text/plain'' b) = Inr b"
  by (simp add: decode_def request_from_def or_empty_def js_def toLowerCase_def lower_unit_def
      startsWith_def)

lemma hello_preview:
  "trim (js ''hello'') = js ''hello''"
  "trim (collapse_ws (take 180 (js ''hello''))) = js ''hello''"
  by (simp_all add: js_def trim_def is_ws_def)

lemma mock_env_flags: "allowMock mock_env" "\<not> hasKey mock_env"
  by (simp_all add: allowMock_def hasKey_def mock_env_def)

lemma no_env_flags: "\<not> allowMock no_env" "\<not> hasKey no_env"
  by (simp_all add: allowMock_def hasKey_def no_env_def)

lemma request_from_simps [simp]:
  "req_method (request_from m orig ctype b) = Some (js m)"
  "headers (request_from m orig ctype b) ''origin'' = Some (js orig)"
  "headers (request_from m orig ctype b) ''content-type'' = Some (js ctype)"
  "body (request_from m orig ctype b) = Some (JStr b)"
  by (simp_all add: request_from_def)

lemma get_post_not_options: "js ''GET'' \<noteq> js ''OPTIONS''" "js ''POST'' \<noteq> js ''OPTIONS''"
  by (simp_all add: js_def)

text \<open>
  The scenario of the specification: allow-list \<^verbatim>\<open>https://a.com\<close>, mock mode, no
  credential, a request from \<^verbatim>\<open>https://a.com\<close> with the text \<^verbatim>\<open>hello\<close>.
\<close>

lemma handler_hello:
  assumes "js m \<noteq> js ''OPTIONS''"
  shows "handler P mock_env (request_from m ''https://a.com'' ''text/plain'' (js ''hello'')) fresh =
    \<lparr>reply = succeed (js ''Mocked response (DEV_ALLOW_MOCK=1). You said: \"hello\"'')
               (applyCors (Some (js ''https://a.com'')) [js ''https://a.com''] fresh),
     upstream_calls = []\<rparr>"
proof -
  have t: "try_block P mock_env (request_from m ''https://a.com'' ''text/plain'' (js ''hello'')) res
      = (Inr (succeed (js ''Mocked response (DEV_ALLOW_MOCK=1). You said: \"hello\"'') res), [])"
    for res
    by (simp add: try_block_def decode_text_plain hello_preview mock_env_flags Let_def)
       (simp add: js_def)
  show ?thesis
    using assms
    by (simp add: handler_def Let_def parseAllowedOrigins_mock_env isOriginAllowed_a_com
        mock_env_flags t)
qed

subsection \<open>Preflight\<close>

text \<open>
  Claim C2. For every request whose method is \<^verbatim>\<open>OPTIONS\<close> the handler applies the CORS
  headers, sets status 204 and ends the response without a body, and makes no upstream
  call. The reply carries \<^verbatim>\<open>Vary: Origin\<close>, the allowed methods \<^verbatim>\<open>POST, OPTIONS\<close>,
  the allowed header \<^verbatim>\<open>Content-Type\<close> and the preflight lifetime \<^verbatim>\<open>86400\<close>, whatever
  the allow-list and the credential are; \<^verbatim>\<open>Access-Control-Allow-Origin\<close> is the literal
  \<^verbatim>\<open>*\<close> under a wildcard list, the request's origin when that is listed, and is not
  set otherwise. The result is determined by the origin header and the allow-list alone:
  the credential, the mock flag, the content type, the body and the provider do not
  occur in it, so no configuration check, body parsing or upstream invocation comes
  first.
\<close>

theorem preflight_short_circuit:
  assumes "req_method req = Some (js ''OPTIONS'')"
  shows "handler P E req res0 =
           \<lparr>reply = res_end (res_status 204
                       (applyCors (headers req ''origin'') (parseAllowedOrigins E) res0)),
            upstream_calls = []\<rparr>
         \<and> statusCode (reply (handler P E req res0)) = 204
         \<and> sent (reply (handler P E req res0)) = Ended
         \<and> res_headers (reply (handler P E req res0)) ''Vary'' = Some (js ''Origin'')
         \<and> res_headers (reply (handler P E req res0)) ''Access-Control-Allow-Methods''
             = Some (js ''POST, OPTIONS'')
         \<and> res_headers (reply (handler P E req res0)) ''Access-Control-Allow-Headers''
             = Some (js ''Content-Type'')
         \<and> res_headers (reply (handler P E req res0)) ''Access-Control-Max-Age''
             = Some (js ''86400'')
         \<and> res_headers (reply (handler P E req res0)) ''Access-Control-Allow-Origin''
             = (if js ''*'' \<in> set (parseAllowedOrigins E) then Some (js ''*'')
                else (case headers req ''origin'' of
                        None \<Rightarrow> res_headers res0 ''Access-Control-Allow-Origin''
                      | Some orig \<Rightarrow>
                          if orig \<noteq> [] \<and> orig \<in> set (parseAllowedOrigins E) then Some orig
                          else res_headers res0 ''Access-Control-Allow-Origin''))"
proof -
  let ?cors = "applyCors (headers req ''origin'') (parseAllowedOrigins E) res0"
  have r: "handler P E req res0 =
      \<lparr>reply = res_end (res_status 204 ?cors), upstream_calls = []\<rparr>"
    using assms by (simp add: handler_def Let_def)
  have h: "res_headers (res_end (res_status 204 ?cors)) = res_headers ?cors"
    by (simp add: res_end_def res_status_def)
  have fixed: "res_headers ?cors ''Vary'' = Some (js ''Origin'')"
    "res_headers ?cors ''Access-Control-Allow-Methods'' = Some (js ''POST, OPTIONS'')"
    "res_headers ?cors ''Access-Control-Allow-Headers'' = Some (js ''Content-Type'')"
    "res_headers ?cors ''Access-Control-Max-Age'' = Some (js ''86400'')"
    by (simp_all add: applyCors_def Let_def res_setHeader_def)
  have allow: "res_headers ?cors ''Access-Control-Allow-Origin''
      = (if js ''*'' \<in> set (parseAllowedOrigins E) then Some (js ''*'')
         else (case headers req ''origin'' of
                 None \<Rightarrow> res_headers res0 ''Access-Control-Allow-Origin''
               | Some orig \<Rightarrow>
                   if orig \<noteq> [] \<and> orig \<in> set (parseAllowedOrigins E) then Some orig
                   else res_headers res0 ''Access-Control-Allow-Origin''))"
    by (simp add: applyCors_def Let_def res_setHeader_def isOriginAllowed_def
        split: option.splits)
  show ?thesis
    by (simp add: r h fixed allow res_end_def res_status_def)
qed

text \<open>
  An \<^verbatim>\<open>OPTIONS\<close> request under an empty allow-list, with no credential and no mock
  mode, from an arbitrary origin and with a body that is not JSON: 204, nothing sent,
  the four fixed CORS headers set and no allow-origin header.
\<close>

theorem preflight_short_circuit_witness:
  "req_method (request_from ''OPTIONS'' ''https://evil.example'' ''application/json'' (js ''not-json''))
     = Some (js ''OPTIONS'')
   \<and> parseAllowedOrigins no_env = [] \<and> \<not> hasKey no_env \<and> \<not> allowMock no_env
   \<and> statusCode (reply (handler sample_platform no_env
        (request_from ''OPTIONS'' ''https://evil.example'' ''application/json'' (js ''not-json''))
        fresh)) = 204
   \<and> sent (reply (handler sample_platform no_env
        (request_from ''OPTIONS'' ''https://evil.example'' ''application/json'' (js ''not-json''))
        fresh)) = Ended
   \<and> upstream_calls (handler sample_platform no_env
        (request_from ''OPTIONS'' ''https://evil.example'' ''application/json'' (js ''not-json''))
        fresh) = []
   \<and> res_headers (reply (handler sample_platform no_env
        (request_from ''OPTIONS'' ''https://evil.example'' ''application/json'' (js ''not-json''))
        fresh)) ''Vary'' = Some (js ''Origin'')
   \<and> res_headers (reply (handler sample_platform no_env
        (request_from ''OPTIONS'' ''https://evil.example'' ''application/json'' (js ''not-json''))
        fresh)) ''Access-Control-Allow-Methods'' = Some (js ''POST, OPTIONS'')
   \<and> res_headers (reply (handler sample_platform no_env
        (request_from ''OPTIONS'' ''https://evil.example'' ''application/json'' (js ''not-json''))
        fresh)) ''Access-Control-Allow-Headers'' = Some (js ''Content-Type'')
   \<and> res_headers (reply (handler sample_platform no_env
        (request_from ''OPTIONS'' ''https://evil.example'' ''application/json'' (js ''not-json''))
        fresh)) ''Access-Control-Max-Age'' = Some (js ''86400'')
   \<and> res_headers (reply (handler sample_platform no_env
        (request_from ''OPTIONS'' ''https://evil.example'' ''application/json'' (js ''not-json''))
        fresh)) ''Access-Control-Allow-Origin'' = None"
proof -
  let ?req = "request_from ''OPTIONS'' ''https://evil.example'' ''application/json'' (js ''not-json'')"
  let ?out = "handler sample_platform no_env ?req fresh"
  have m: "req_method ?req = Some (js ''OPTIONS'')"
    by simp
  note p = preflight_short_circuit [OF m, of sample_platform no_env fresh]
  from p have "upstream_calls ?out = []"
    by simp
  moreover from p have "statusCode (reply ?out) = 204" "sent (reply ?out) = Ended"
    by blast+
  moreover from p have "res_headers (reply ?out) ''Vary'' = Some (js ''Origin'')"
    "res_headers (reply ?out) ''Access-Control-Allow-Methods'' = Some (js ''POST, OPTIONS'')"
    "res_headers (reply ?out) ''Access-Control-Allow-Headers'' = Some (js ''Content-Type'')"
    "res_headers (reply ?out) ''Access-Control-Max-Age'' = Some (js ''86400'')"
    by blast+
  moreover have "res_headers (reply ?out) ''Access-Control-Allow-Origin'' = None"
  proof -
    have "res_headers fresh ''Access-Control-Allow-Origin'' = None"
      by (simp add: fresh_def)
    with p [THEN conjunct2, THEN conjunct2, THEN conjunct2, THEN conjunct2, THEN conjunct2,
        THEN conjunct2, THEN conjunct2]
    show ?thesis
      by (simp add: parseAllowedOrigins_no_env)
  qed
  ultimately show ?thesis
    using m no_env_flags parseAllowedOrigins_no_env by simp
qed

subsection \<open>Any method but OPTIONS runs the pipeline\<close>

text \<open>
  Claim C10. The handler compares the method with \<^verbatim>\<open>OPTIONS\<close> and with nothing else:
  a request whose method is not \<^verbatim>\<open>OPTIONS\<close> (or is missing) gets exactly the outcome
  of the same request sent as \<^verbatim>\<open>POST\<close>.
\<close>

theorem method_is_not_checked:
  assumes "req_method req \<noteq> Some (js ''OPTIONS'')"
  shows "handler P E req res0 = handler P E (req\<lparr>req_method := Some (js ''POST'')\<rparr>) res0"
proof -
  have "decode P (req\<lparr>req_method := Some (js ''POST'')\<rparr>) = decode P req"
    by (simp add: decode_def)
  then have "try_block P E (req\<lparr>req_method := Some (js ''POST'')\<rparr>) = try_block P E req"
    by (simp add: try_block_def fun_eq_iff)
  with assms get_post_not_options show ?thesis
    by (simp add: handler_def Let_def)
qed

text \<open>A \<^verbatim>\<open>GET\<close> from the allowed origin in mock mode is answered 200 with content.\<close>

theorem method_is_not_checked_witness:
  "req_method (request_from ''GET'' ''https://a.com'' ''text/plain'' (js ''hello''))
     \<noteq> Some (js ''OPTIONS'')
   \<and> handler sample_platform mock_env
        (request_from ''GET'' ''https://a.com'' ''text/plain'' (js ''hello'')) fresh
     = handler sample_platform mock_env
        ((request_from ''GET'' ''https://a.com'' ''text/plain'' (js ''hello''))
           \<lparr>req_method := Some (js ''POST'')\<rparr>) fresh
   \<and> statusCode (reply (handler sample_platform mock_env
        (request_from ''GET'' ''https://a.com'' ''text/plain'' (js ''hello'')) fresh)) = 200
   \<and> sent (reply (handler sample_platform mock_env
        (request_from ''GET'' ''https://a.com'' ''text/plain'' (js ''hello'')) fresh))
     = Json (content_obj (js ''Mocked response (DEV_ALLOW_MOCK=1). You said: \"hello\"''))"
proof -
  let ?req = "request_from ''GET'' ''https://a.com'' ''text/plain'' (js ''hello'')"
  have m: "req_method ?req \<noteq> Some (js ''OPTIONS'')"
    using get_post_not_options by simp
  note same = method_is_not_checked [OF m, of sample_platform mock_env fresh]
  have "statusCode (reply (handler sample_platform mock_env ?req fresh)) = 200"
    and "sent (reply (handler sample_platform mock_env ?req fresh))
     = Json (content_obj (js ''Mocked response (DEV_ALLOW_MOCK=1). You said: \"hello\"''))"
    by (simp_all add: handler_hello get_post_not_options succeed_def)
  with m same show ?thesis
    by simp
qed

lemma evil_not_allowed:
  "js ''*'' \<notin> set [js ''https://a.com'']"
  "js ''https://evil.example'' \<notin> set [js ''https://a.com'']"
  by (simp_all add: js_def)

lemma try_block_keeps_allow_origin:
  assumes "try_block P E req res = (Inr res', calls)"
  shows "res_headers res' ''Access-Control-Allow-Origin'' = res_headers res ''Access-Control-Allow-Origin''"
  using assms
  by (auto simp: try_block_def Let_def succeed_def res_setHeader_def
      split: sum.splits if_splits)

lemma handler_keeps_allow_origin:
  "res_headers (reply (handler P E req res0)) ''Access-Control-Allow-Origin''
     = res_headers (applyCors (headers req ''origin'') (parseAllowedOrigins E) res0)
         ''Access-Control-Allow-Origin''"
proof (cases "try_block P E req
    (applyCors (headers req ''origin'') (parseAllowedOrigins E) res0)")
  case (Pair r calls)
  show ?thesis
  proof (cases r)
    case (Inl err)
    with Pair show ?thesis
      by (simp add: handler_def Let_def res_end_def res_status_def)
  next
    case (Inr res')
    with Pair try_block_keeps_allow_origin [of P E req _ res' calls] show ?thesis
      by (simp add: handler_def Let_def res_end_def res_status_def)
  qed
qed

subsection \<open>Origin enforcement\<close>

text \<open>
  Claim C3. Take a request that is not a preflight, under an allow-list that is neither
  empty nor contains the wildcard. If its origin header is absent or is not (exactly, as
  a string) one of the listed origins, the handler answers 403 with
  \<^verbatim>\<open>{ error: 'Origin not allowed' }\<close> and calls the provider not at all. The outcome is
  the same whatever the credential and the mock flag are: the credential check is not
  reached.
\<close>

theorem disallowed_origin_rejected:
  assumes "req_method req \<noteq> Some (js ''OPTIONS'')"
    and "parseAllowedOrigins E \<noteq> []"
    and "js ''*'' \<notin> set (parseAllowedOrigins E)"
    and "headers req ''origin'' \<notin> Some ` set (parseAllowedOrigins E)"
  shows "handler P E req res0 =
           \<lparr>reply = respond 403 (error_obj (js ''Origin not allowed''))
                      (applyCors (headers req ''origin'') (parseAllowedOrigins E) res0),
            upstream_calls = []\<rparr>
         \<and> handler P (E\<lparr>OPENAI_API_KEY := k, DEV_ALLOW_MOCK := m\<rparr>) req res0
             = handler P E req res0"
proof -
  have na: "\<not> isOriginAllowed (headers req ''origin'') (parseAllowedOrigins E)"
    using assms(3,4) by (auto simp: isOriginAllowed_def split: option.splits)
  have pe: "parseAllowedOrigins (E\<lparr>OPENAI_API_KEY := k, DEV_ALLOW_MOCK := m\<rparr>)
      = parseAllowedOrigins E"
    by (simp add: parseAllowedOrigins_def)
  show ?thesis
    using assms(1,2) na by (simp add: handler_def Let_def pe)
qed

text \<open>
  Under the allow-list \<^verbatim>\<open>https://a.com\<close>: a \<^verbatim>\<open>POST\<close> from another origin, and a
  \<^verbatim>\<open>POST\<close> without an origin header.
\<close>

theorem disallowed_origin_rejected_witness:
  "req_method (request_from ''POST'' ''https://evil.example'' ''text/plain'' (js ''hello''))
     \<noteq> Some (js ''OPTIONS'')
   \<and> parseAllowedOrigins mock_env \<noteq> []
   \<and> js ''*'' \<notin> set (parseAllowedOrigins mock_env)
   \<and> headers (request_from ''POST'' ''https://evil.example'' ''text/plain'' (js ''hello'')) ''origin''
       \<notin> Some ` set (parseAllowedOrigins mock_env)
   \<and> statusCode (reply (handler sample_platform mock_env
        (request_from ''POST'' ''https://evil.example'' ''text/plain'' (js ''hello'')) fresh)) = 403
   \<and> sent (reply (handler sample_platform mock_env
        (request_from ''POST'' ''https://evil.example'' ''text/plain'' (js ''hello'')) fresh))
       = Json (error_obj (js ''Origin not allowed''))
   \<and> upstream_calls (handler sample_platform mock_env
        (request_from ''POST'' ''https://evil.example'' ''text/plain'' (js ''hello'')) fresh) = []
   \<and> statusCode (reply (handler sample_platform mock_env
        \<lparr>req_method = Some (js ''POST''), headers = Map.empty, body = None\<rparr> fresh)) = 403"
proof -
  let ?req = "request_from ''POST'' ''https://evil.example'' ''text/plain'' (js ''hello'')"
  let ?bare = "\<lparr>req_method = Some (js ''POST''), headers = Map.empty, body = None\<rparr>"
  have h: "req_method ?req \<noteq> Some (js ''OPTIONS'')"
    "parseAllowedOrigins mock_env \<noteq> []"
    "js ''*'' \<notin> set (parseAllowedOrigins mock_env)"
    "headers ?req ''origin'' \<notin> Some ` set (parseAllowedOrigins mock_env)"
    using get_post_not_options evil_not_allowed
    by (auto simp: parseAllowedOrigins_mock_env)
  have b: "req_method ?bare \<noteq> Some (js ''OPTIONS'')"
    "headers ?bare ''origin'' \<notin> Some ` set (parseAllowedOrigins mock_env)"
    using get_post_not_options by auto
  from disallowed_origin_rejected [OF h, of sample_platform fresh]
    disallowed_origin_rejected [OF b(1) h(2,3) b(2), of sample_platform fresh]
  have "statusCode (reply (handler sample_platform mock_env ?req fresh)) = 403"
    and "sent (reply (handler sample_platform mock_env ?req fresh))
       = Json (error_obj (js ''Origin not allowed''))"
    and "upstream_calls (handler sample_platform mock_env ?req fresh) = []"
    and "statusCode (reply (handler sample_platform mock_env ?bare fresh)) = 403"
    by simp_all
  with h show ?thesis
    by blast
qed

subsection \<open>Empty allow-list\<close>

text \<open>
  Claim C4. For a request that is not a preflight, an allow-list that parses to the empty
  list makes the handler answer 500 with the message
  \<^verbatim>\<open>Server misconfiguration: ALLOWED_ORIGINS is not set\<close>, whatever the origin header is.
  The test comes before origin enforcement: the answer is never the origin rejection.
\<close>

theorem empty_allow_list_is_misconfiguration:
  assumes "req_method req \<noteq> Some (js ''OPTIONS'')"
    and "parseAllowedOrigins E = []"
  shows "handler P E req res0 =
           \<lparr>reply = respond 500
                      (error_obj (js ''Server misconfiguration: ALLOWED_ORIGINS is not set''))
                      (applyCors (headers req ''origin'') [] res0),
            upstream_calls = []\<rparr>
         \<and> statusCode (reply (handler P E req res0)) = 500
         \<and> statusCode (reply (handler P E req res0)) \<noteq> 403
         \<and> sent (reply (handler P E req res0)) \<noteq> Json (error_obj (js ''Origin not allowed''))"
  using assms by (simp add: handler_def Let_def error_obj_def js_def)

text \<open>
  \<^verbatim>\<open>ALLOWED_ORIGINS\<close> unset, and \<^verbatim>\<open>ALLOWED_ORIGINS\<close> holding only blanks and a comma:
  both parse to the empty list and give 500, for a request with and without origin.
\<close>

theorem empty_allow_list_is_misconfiguration_witness:
  "req_method (request_from ''POST'' ''https://a.com'' ''text/plain'' (js ''hello''))
     \<noteq> Some (js ''OPTIONS'')
   \<and> parseAllowedOrigins no_env = []
   \<and> parseAllowedOrigins (mock_env\<lparr>ALLOWED_ORIGINS := Some (js '' , '')\<rparr>) = []
   \<and> statusCode (reply (handler sample_platform no_env
        (request_from ''POST'' ''https://a.com'' ''text/plain'' (js ''hello'')) fresh)) = 500
   \<and> sent (reply (handler sample_platform (mock_env\<lparr>ALLOWED_ORIGINS := Some (js '' , '')\<rparr>)
        (request_from ''POST'' ''https://a.com'' ''text/plain'' (js ''hello'')) fresh))
       = Json (error_obj (js ''Server misconfiguration: ALLOWED_ORIGINS is not set''))"
proof -
  let ?req = "request_from ''POST'' ''https://a.com'' ''text/plain'' (js ''hello'')"
  let ?E = "mock_env\<lparr>ALLOWED_ORIGINS := Some (js '' , '')\<rparr>"
  have m: "req_method ?req \<noteq> Some (js ''OPTIONS'')"
    using get_post_not_options by simp
  have e: "parseAllowedOrigins ?E = []"
    by (simp add: parseAllowedOrigins_def or_empty_def js_def trim_def is_ws_def)
  from empty_allow_list_is_misconfiguration [OF m parseAllowedOrigins_no_env, of sample_platform fresh]
    empty_allow_list_is_misconfiguration [OF m e, of sample_platform fresh]
  have "statusCode (reply (handler sample_platform no_env ?req fresh)) = 500"
    and "sent (reply (handler sample_platform ?E ?req fresh))
       = Json (error_obj (js ''Server misconfiguration: ALLOWED_ORIGINS is not set''))"
    by simp_all
  with m e parseAllowedOrigins_no_env show ?thesis
    by blast
qed

subsection \<open>Wildcard allow-list\<close>

text \<open>
  Claim C7. If the allow-list contains the wildcard \<^verbatim>\<open>*\<close>, then for every request,
  with any origin header or none, the origin check holds, \<^verbatim>\<open>applyCors\<close> sets
  \<^verbatim>\<open>Access-Control-Allow-Origin\<close> to the literal \<^verbatim>\<open>*\<close>, and that is the value of the
  header in the response the handler gives, on every path.
\<close>

theorem wildcard_allows_every_origin:
  assumes "js ''*'' \<in> set (parseAllowedOrigins E)"
  shows "isOriginAllowed origin (parseAllowedOrigins E)
         \<and> res_headers (applyCors origin (parseAllowedOrigins E) res0)
              ''Access-Control-Allow-Origin'' = Some (js ''*'')
         \<and> res_headers (reply (handler P E req res0))
              ''Access-Control-Allow-Origin'' = Some (js ''*'')"
proof -
  have cors: "res_headers (applyCors orig (parseAllowedOrigins E) res0)
      ''Access-Control-Allow-Origin'' = Some (js ''*'')" for orig
    using assms by (simp add: applyCors_def Let_def res_setHeader_def)
  have allowed: "isOriginAllowed origin (parseAllowedOrigins E)"
    using assms by (simp add: isOriginAllowed_def)
  from handler_keeps_allow_origin [of P E req res0] cors [of "headers req ''origin''"]
  have "res_headers (reply (handler P E req res0)) ''Access-Control-Allow-Origin''
      = Some (js ''*'')"
    by simp
  with cors allowed show ?thesis
    by simp
qed

text \<open>
  The allow-list \<^verbatim>\<open>https://a.com, *\<close>: a request from another origin and one without
  an origin header both carry the literal \<^verbatim>\<open>*\<close>, not an echoed origin.
\<close>

theorem wildcard_allows_every_origin_witness:
  "js ''*'' \<in> set (parseAllowedOrigins (mock_env\<lparr>ALLOWED_ORIGINS := Some (js ''https://a.com, *'')\<rparr>))
   \<and> isOriginAllowed None (parseAllowedOrigins (mock_env\<lparr>ALLOWED_ORIGINS := Some (js ''https://a.com, *'')\<rparr>))
   \<and> res_headers (reply (handler sample_platform
          (mock_env\<lparr>ALLOWED_ORIGINS := Some (js ''https://a.com, *'')\<rparr>)
          (request_from ''POST'' ''https://evil.example'' ''text/plain'' (js ''hello'')) fresh))
        ''Access-Control-Allow-Origin'' = Some (js ''*'')
   \<and> res_headers (reply (handler sample_platform
          (mock_env\<lparr>ALLOWED_ORIGINS := Some (js ''https://a.com, *'')\<rparr>)
          \<lparr>req_method = Some (js ''POST''), headers = Map.empty, body = None\<rparr> fresh))
        ''Access-Control-Allow-Origin'' = Some (js ''*'')"
proof -
  let ?E = "mock_env\<lparr>ALLOWED_ORIGINS := Some (js ''https://a.com, *'')\<rparr>"
  have "parseAllowedOrigins ?E = [js ''https://a.com'', js ''*'']"
    by (simp add: parseAllowedOrigins_def or_empty_def js_def trim_def is_ws_def)
  then have w: "js ''*'' \<in> set (parseAllowedOrigins ?E)"
    by simp
  from wildcard_allows_every_origin [OF w, of None fresh sample_platform
      "request_from ''POST'' ''https://evil.example'' ''text/plain'' (js ''hello'')"]
    wildcard_allows_every_origin [OF w, of None fresh sample_platform
      "\<lparr>req_method = Some (js ''POST''), headers = Map.empty, body = None\<rparr>"]
    w
  show ?thesis
    by blast
qed

subsection \<open>The body of the try statement\<close>

text \<open>What the handler does once the preflight and the three configuration tests are passed.\<close>

lemma handler_past_guards:
  assumes "req_method req \<noteq> Some (js ''OPTIONS'')"
    and "parseAllowedOrigins E \<noteq> []"
    and "isOriginAllowed (headers req ''origin'') (parseAllowedOrigins E)"
    and "hasKey E \<or> allowMock E"
  shows "handler P E req res0 =
    (case try_block P E req (applyCors (headers req ''origin'') (parseAllowedOrigins E) res0) of
       (Inr res', calls) \<Rightarrow> \<lparr>reply = res', upstream_calls = calls\<rparr>
     | (Inl err, calls) \<Rightarrow>
         \<lparr>reply = respond (catch_status err) (error_obj (catch_message err))
                    (applyCors (headers req ''origin'') (parseAllowedOrigins E) res0),
          upstream_calls = calls\<rparr>)"
  using assms by (auto simp: handler_def Let_def)

lemma try_block_empty:
  assumes "decode P req = Inr t" and "trim t = []"
  shows "try_block P E req res =
    (Inr (respond 400 (error_obj (js ''Invalid request: text is required'')) res), [])"
  using assms by (simp add: try_block_def)

lemma try_block_too_long:
  assumes "decode P req = Inr t" and "8000 < length (trim t)"
  shows "try_block P E req res =
    (Inr (respond 413 (error_obj (js ''Payload too large: text exceeds 8000 characters'')) res), [])"
proof -
  from assms(2) have "trim t \<noteq> []" by auto
  with assms show ?thesis by (simp add: try_block_def)
qed

lemma try_block_mock:
  assumes "decode P req = Inr t" and "trim t \<noteq> []" and "length (trim t) \<le> 8000"
    and "allowMock E" and "\<not> hasKey E"
  shows "try_block P E req res =
    (Inr (succeed
       (js ''Mocked response (DEV_ALLOW_MOCK=1). You said: \"'' @
        trim (collapse_ws (take 180 (trim t))) @
        (if 180 < length (trim t) then [0x2026] else []) @ js ''\"'') res), [])"
  using assms by (simp add: try_block_def Let_def)

lemma try_block_live:
  assumes "decode P req = Inr t" and "trim t \<noteq> []" and "length (trim t) \<le> 8000"
    and "\<not> (allowMock E \<and> \<not> hasKey E)"
  shows "snd (try_block P E req res) =
    [\<lparr>apiKey = OPENAI_API_KEY E, model = ''gpt-4o-mini'', temperature = ''0.7'',
      messages = [(''system'', systemPrompt E), (''user'', trim t)]\<rparr>]"
  using assms by (auto simp: try_block_def Let_def split: sum.splits)

lemma upstream_calls_past_guards:
  assumes "req_method req \<noteq> Some (js ''OPTIONS'')"
    and "parseAllowedOrigins E \<noteq> []"
    and "isOriginAllowed (headers req ''origin'') (parseAllowedOrigins E)"
    and "hasKey E \<or> allowMock E"
  shows "upstream_calls (handler P E req res0) =
    snd (try_block P E req (applyCors (headers req ''origin'') (parseAllowedOrigins E) res0))"
  by (simp add: handler_past_guards [OF assms] split: prod.splits sum.splits)

lemma dropWhile_replicate_keep: "\<not> Q c \<Longrightarrow> dropWhile Q (replicate n c) = replicate n c"
  by (cases n) simp_all

lemma trim_replicate: "\<not> is_ws c \<Longrightarrow> trim (replicate n c) = replicate n c"
  by (simp add: trim_def dropWhile_replicate_keep)

lemma not_ws_a: "\<not> is_ws 0x61" "\<not> is_ws 0x62" "is_ws 0x20"
  by (simp_all add: is_ws_def)

text \<open>The body \<^verbatim>\<open>not-json\<close>, under a JSON content type and under an unrecognised one.\<close>

lemma not_json_invalid: "JSON_parse (js ''not-json'') = None"
  by (simp add: js_def JSON_parse_def startsWith_def is_digit_def)

lemma content_type_tests:
  "\<not> startsWith (toLowerCase (js ''application/json'')) (js ''text/plain'')"
  "includes_str (toLowerCase (js ''application/json'')) (js ''application/json'')"
  "\<not> startsWith (toLowerCase (js ''application/xml'')) (js ''text/plain'')"
  "\<not> includes_str (toLowerCase (js ''application/xml'')) (js ''application/json'')"
  by (simp_all add: js_def toLowerCase_def lower_unit_def startsWith_def)

lemma decode_not_json:
  "decode P (request_from m orig ''application/json'' (js ''not-json''))
     = Inl (syntax_error P (js ''not-json''))"
  by (simp add: decode_def or_empty_def content_type_tests parse_body_def not_json_invalid)

lemma decode_not_json_fallback:
  "decode P (request_from m orig ''application/xml'' (js ''not-json'')) = Inr []"
  by (simp add: decode_def or_empty_def content_type_tests parse_body_def not_json_invalid)

lemma handler_not_json_fallback:
  "handler P mock_env
     (request_from ''POST'' ''https://a.com'' ''application/xml'' (js ''not-json'')) fresh
   = \<lparr>reply = respond 400 (error_obj (js ''Invalid request: text is required''))
                (applyCors (Some (js ''https://a.com'')) [js ''https://a.com''] fresh),
      upstream_calls = []\<rparr>"
proof -
  have "trim [] = []"
    by (simp add: trim_def)
  with try_block_empty [OF decode_not_json_fallback] get_post_not_options show ?thesis
    by (simp add: handler_def Let_def parseAllowedOrigins_mock_env isOriginAllowed_a_com
        mock_env_flags)
qed

text \<open>
  The decoder throws in one situation only: the content type names JSON (and does not
  start with \<^verbatim>\<open>text/plain\<close>), the body is a string, and the string is not JSON.
\<close>

lemma decode_throws_only_json:
  assumes "decode P req = Inl err"
  shows "\<exists>s. body req = Some (JStr s) \<and> JSON_parse s = None \<and> err = syntax_error P s
           \<and> includes_str (toLowerCase (or_empty (headers req ''content-type'')))
                (js ''application/json'')"
  using assms
  by (auto simp: decode_def parse_body_def Let_def
      split: if_splits sum.splits option.splits json.splits bool.splits)

subsection \<open>Malformed JSON under a JSON content type\<close>

text \<open>
  Claim C1 says that decoding never throws, and that a request with content type
  \<^verbatim>\<open>application/json\<close> and the body \<^verbatim>\<open>not-json\<close> is answered 400. The handler does
  otherwise: in the \<^verbatim>\<open>application/json\<close> branch \<^verbatim>\<open>JSON.parse\<close> is not guarded, its
  SyntaxError leaves the decoder and the \<^verbatim>\<open>catch\<close> clause turns it into a 500 carrying
  the parser's message. The same body under an unrecognised content type goes through
  the guarded branch and is answered 400.
\<close>

theorem json_parse_error_reaches_catch:
  "JSON_parse (js ''not-json'') = None
   \<and> decode P (request_from ''POST'' ''https://a.com'' ''application/json'' (js ''not-json''))
       = Inl (syntax_error P (js ''not-json''))
   \<and> handler P mock_env
        (request_from ''POST'' ''https://a.com'' ''application/json'' (js ''not-json'')) fresh
       = \<lparr>reply = respond 500 (error_obj (catch_message (syntax_error P (js ''not-json''))))
                    (applyCors (Some (js ''https://a.com'')) [js ''https://a.com''] fresh),
          upstream_calls = []\<rparr>
   \<and> decode P (request_from ''POST'' ''https://a.com'' ''application/xml'' (js ''not-json''))
       = Inr []
   \<and> handler P mock_env
        (request_from ''POST'' ''https://a.com'' ''application/xml'' (js ''not-json'')) fresh
       = \<lparr>reply = respond 400 (error_obj (js ''Invalid request: text is required''))
                    (applyCors (Some (js ''https://a.com'')) [js ''https://a.com''] fresh),
          upstream_calls = []\<rparr>"
proof -
  let ?json = "request_from ''POST'' ''https://a.com'' ''application/json'' (js ''not-json'')"
  have tj: "try_block P mock_env ?json res = (Inl (syntax_error P (js ''not-json'')), [])" for res
    by (simp add: try_block_def decode_not_json)
  have s: "catch_status (syntax_error P (js ''not-json'')) = 500"
    by (simp add: catch_status_def syntax_error_def)
  have hj: "handler P mock_env ?json fresh
       = \<lparr>reply = respond 500 (error_obj (catch_message (syntax_error P (js ''not-json''))))
                    (applyCors (Some (js ''https://a.com'')) [js ''https://a.com''] fresh),
          upstream_calls = []\<rparr>"
    using get_post_not_options
    by (simp add: handler_def Let_def parseAllowedOrigins_mock_env isOriginAllowed_a_com
        mock_env_flags tj s)
  from not_json_invalid decode_not_json hj decode_not_json_fallback handler_not_json_fallback
  show ?thesis
    by blast
qed

subsection \<open>Input validation\<close>

text \<open>
  Claim C5. Take a request that reaches validation: it is past the preflight and the
  configuration tests, and decoding gave a text \<open>t\<close>. If the trimmed text is empty the
  answer is 400 \<^verbatim>\<open>Invalid request: text is required\<close>; if it is longer than 8000 code
  units (8001 or more) the answer is 413
  \<^verbatim>\<open>Payload too large: text exceeds 8000 characters\<close>; in both cases nothing is invoked.
  Otherwise, and so at exactly 8000, the trimmed text goes unchanged to the invoker: in
  mock mode the answer is 200, else the provider is called once with the trimmed text as
  the user message. Length is that of a JavaScript string (UTF-16 code units).
\<close>

theorem validation_boundary:
  assumes "req_method req \<noteq> Some (js ''OPTIONS'')"
    and "parseAllowedOrigins E \<noteq> []"
    and "isOriginAllowed (headers req ''origin'') (parseAllowedOrigins E)"
    and "hasKey E \<or> allowMock E"
    and "decode P req = Inr t"
  shows "(trim t = [] \<longrightarrow>
            handler P E req res0 =
              \<lparr>reply = respond 400 (error_obj (js ''Invalid request: text is required''))
                 (applyCors (headers req ''origin'') (parseAllowedOrigins E) res0),
               upstream_calls = []\<rparr>)
       \<and> (8001 \<le> length (trim t) \<longrightarrow>
            handler P E req res0 =
              \<lparr>reply = respond 413
                 (error_obj (js ''Payload too large: text exceeds 8000 characters''))
                 (applyCors (headers req ''origin'') (parseAllowedOrigins E) res0),
               upstream_calls = []\<rparr>)
       \<and> (trim t \<noteq> [] \<and> length (trim t) \<le> 8000 \<longrightarrow>
            (if allowMock E \<and> \<not> hasKey E
             then statusCode (reply (handler P E req res0)) = 200
                \<and> upstream_calls (handler P E req res0) = []
             else upstream_calls (handler P E req res0) =
                [\<lparr>apiKey = OPENAI_API_KEY E, model = ''gpt-4o-mini'', temperature = ''0.7'',
                  messages = [(''system'', systemPrompt E), (''user'', trim t)]\<rparr>]))"
proof -
  note h = handler_past_guards [OF assms(1-4), of P res0]
  have "trim t = [] \<longrightarrow>
            handler P E req res0 =
              \<lparr>reply = respond 400 (error_obj (js ''Invalid request: text is required''))
                 (applyCors (headers req ''origin'') (parseAllowedOrigins E) res0),
               upstream_calls = []\<rparr>"
    by (simp add: h try_block_empty [OF assms(5)])
  moreover have "8001 \<le> length (trim t) \<longrightarrow>
            handler P E req res0 =
              \<lparr>reply = respond 413
                 (error_obj (js ''Payload too large: text exceeds 8000 characters''))
                 (applyCors (headers req ''origin'') (parseAllowedOrigins E) res0),
               upstream_calls = []\<rparr>"
    by (simp add: h try_block_too_long [OF assms(5)])
  moreover have "trim t \<noteq> [] \<and> length (trim t) \<le> 8000 \<longrightarrow>
            (if allowMock E \<and> \<not> hasKey E
             then statusCode (reply (handler P E req res0)) = 200
                \<and> upstream_calls (handler P E req res0) = []
             else upstream_calls (handler P E req res0) =
                [\<lparr>apiKey = OPENAI_API_KEY E, model = ''gpt-4o-mini'', temperature = ''0.7'',
                  messages = [(''system'', systemPrompt E), (''user'', trim t)]\<rparr>])"
  proof (intro impI, elim conjE)
    assume ne: "trim t \<noteq> []" and le: "length (trim t) \<le> 8000"
    show "if allowMock E \<and> \<not> hasKey E
             then statusCode (reply (handler P E req res0)) = 200
                \<and> upstream_calls (handler P E req res0) = []
             else upstream_calls (handler P E req res0) =
                [\<lparr>apiKey = OPENAI_API_KEY E, model = ''gpt-4o-mini'', temperature = ''0.7'',
                  messages = [(''system'', systemPrompt E), (''user'', trim t)]\<rparr>]"
    proof (cases "allowMock E \<and> \<not> hasKey E")
      case True
      then show ?thesis
        by (simp add: h try_block_mock [OF assms(5) ne le] succeed_def)
    next
      case False
      with try_block_live [OF assms(5) ne le False]
        upstream_calls_past_guards [OF assms(1-4), of P res0]
      show ?thesis by simp
    qed
  qed
  ultimately show ?thesis
    by blast
qed

text \<open>
  In mock mode, with content type \<^verbatim>\<open>text/plain\<close>: a body of 8000 letters is answered
  200, a body of 8001 letters 413, a body of three blanks 400.
\<close>

theorem validation_boundary_witness:
  "req_method (request_from ''POST'' ''https://a.com'' ''text/plain'' (replicate 8000 0x61))
     \<noteq> Some (js ''OPTIONS'')
   \<and> parseAllowedOrigins mock_env \<noteq> []
   \<and> isOriginAllowed (Some (js ''https://a.com'')) (parseAllowedOrigins mock_env)
   \<and> (hasKey mock_env \<or> allowMock mock_env)
   \<and> decode sample_platform
        (request_from ''POST'' ''https://a.com'' ''text/plain'' (replicate 8000 0x61))
       = Inr (replicate 8000 0x61)
   \<and> length (trim (replicate 8000 0x61)) = 8000
   \<and> statusCode (reply (handler sample_platform mock_env
        (request_from ''POST'' ''https://a.com'' ''text/plain'' (replicate 8000 0x61)) fresh)) = 200
   \<and> length (trim (replicate 8001 0x61)) = 8001
   \<and> statusCode (reply (handler sample_platform mock_env
        (request_from ''POST'' ''https://a.com'' ''text/plain'' (replicate 8001 0x61)) fresh)) = 413
   \<and> trim (js ''   '') = []
   \<and> statusCode (reply (handler sample_platform mock_env
        (request_from ''POST'' ''https://a.com'' ''text/plain'' (js ''   '')) fresh)) = 400"
proof -
  let ?r = "\<lambda>b. request_from ''POST'' ''https://a.com'' ''text/plain'' b"
  have g: "req_method (?r b) \<noteq> Some (js ''OPTIONS'')"
    "parseAllowedOrigins mock_env \<noteq> []"
    "isOriginAllowed (headers (?r b) ''origin'') (parseAllowedOrigins mock_env)"
    "hasKey mock_env \<or> allowMock mock_env"
    "decode sample_platform (?r b) = Inr b" for b
    using get_post_not_options mock_env_flags
    by (simp_all add: parseAllowedOrigins_mock_env isOriginAllowed_a_com decode_text_plain)
  have t: "trim (replicate 8000 0x61) = replicate 8000 0x61"
    "trim (replicate 8001 0x61) = replicate 8001 0x61" "trim (js ''   '') = []"
    by (simp_all add: trim_replicate not_ws_a) (simp add: trim_def js_def is_ws_def)
  from validation_boundary [of "?r (replicate 8000 0x61)" mock_env sample_platform "replicate 8000 0x61" fresh, OF g]
  have a: "statusCode (reply (handler sample_platform mock_env (?r (replicate 8000 0x61)) fresh)) = 200"
    using mock_env_flags by (simp add: t)
  from validation_boundary [of "?r (replicate 8001 0x61)" mock_env sample_platform "replicate 8001 0x61" fresh, OF g]
  have b: "statusCode (reply (handler sample_platform mock_env (?r (replicate 8001 0x61)) fresh)) = 413"
    by (simp add: t)
  from validation_boundary [of "?r (js ''   '')" mock_env sample_platform "js ''   ''" fresh, OF g]
  have c: "statusCode (reply (handler sample_platform mock_env (?r (js ''   '')) fresh)) = 400"
    by (simp add: t)
  from a b c t g(1,3,5) [of "replicate 8000 0x61"] g(2,4) show ?thesis
    by simp
qed

subsection \<open>The mock reply\<close>

lemma dropWhile_replicate_append:
  "\<not> Q c \<Longrightarrow> 0 < n \<Longrightarrow> dropWhile Q (replicate n c @ xs) = replicate n c @ xs"
  by (cases n) simp_all

lemma collapse_ws_replicate:
  "\<not> is_ws c \<Longrightarrow> collapse_ws (replicate n c @ xs) = replicate n c @ collapse_ws xs"
  by (induction n) simp_all

lemma trim_cut_text: "trim cut_text = cut_text"
  by (simp add: cut_text_def trim_def dropWhile_replicate_append not_ws_a)

lemma length_cut_text: "length cut_text = 181"
  by (simp add: cut_text_def)

lemma collapse_cut_text: "collapse_ws (take 180 cut_text) = replicate 179 0x61 @ [0x20]"
  by (simp add: cut_text_def collapse_ws_replicate not_ws_a)

lemma preview_cut_text: "trim (collapse_ws (take 180 cut_text)) = replicate 179 0x61"
  by (simp add: collapse_cut_text trim_def dropWhile_replicate_keep not_ws_a)

lemma guards_a_com:
  "req_method (request_from ''POST'' ''https://a.com'' ctype b) \<noteq> Some (js ''OPTIONS'')"
  "parseAllowedOrigins mock_env \<noteq> []"
  "isOriginAllowed (headers (request_from ''POST'' ''https://a.com'' ctype b) ''origin'')
     (parseAllowedOrigins mock_env)"
  "hasKey mock_env \<or> allowMock mock_env"
  using get_post_not_options mock_env_flags
  by (simp_all add: parseAllowedOrigins_mock_env isOriginAllowed_a_com)

text \<open>
  Claim C6, as the handler has it. For a request that reaches the invoker with the
  validated text \<open>u\<close> (trimmed, not empty, at most 8000 code units): the mock path is taken
  exactly when mock mode is on and no credential is configured, and then the content is
  the fixed opening, the preview, the ellipsis U+2026 exactly when \<open>u\<close> is longer than 180,
  and a closing quote, with no upstream call; otherwise the provider is called once. The
  content is a function of \<open>u\<close> alone. The preview is the first 180 code units of \<open>u\<close> with
  every run of white space collapsed to one blank, and then trimmed: a blank left at the
  cut by the collapsing is removed.
\<close>

theorem mock_reply:
  assumes "req_method req \<noteq> Some (js ''OPTIONS'')"
    and "parseAllowedOrigins E \<noteq> []"
    and "isOriginAllowed (headers req ''origin'') (parseAllowedOrigins E)"
    and "hasKey E \<or> allowMock E"
    and "decode P req = Inr t"
    and "trim t \<noteq> []"
    and "length (trim t) \<le> 8000"
  shows "(allowMock E \<and> \<not> hasKey E \<longrightarrow>
            handler P E req res0 =
              \<lparr>reply = succeed
                 (js ''Mocked response (DEV_ALLOW_MOCK=1). You said: \"'' @
                  trim (collapse_ws (take 180 (trim t))) @
                  (if 180 < length (trim t) then [0x2026] else []) @ js ''\"'')
                 (applyCors (headers req ''origin'') (parseAllowedOrigins E) res0),
               upstream_calls = []\<rparr>)
       \<and> (\<not> (allowMock E \<and> \<not> hasKey E) \<longrightarrow>
            upstream_calls (handler P E req res0) =
              [\<lparr>apiKey = OPENAI_API_KEY E, model = ''gpt-4o-mini'', temperature = ''0.7'',
                messages = [(''system'', systemPrompt E), (''user'', trim t)]\<rparr>])"
proof (intro conjI impI)
  assume "allowMock E \<and> \<not> hasKey E"
  then have "allowMock E" "\<not> hasKey E"
    by simp_all
  from try_block_mock [OF assms(5-7) this] show "handler P E req res0 =
              \<lparr>reply = succeed
                 (js ''Mocked response (DEV_ALLOW_MOCK=1). You said: \"'' @
                  trim (collapse_ws (take 180 (trim t))) @
                  (if 180 < length (trim t) then [0x2026] else []) @ js ''\"'')
                 (applyCors (headers req ''origin'') (parseAllowedOrigins E) res0),
               upstream_calls = []\<rparr>"
    by (simp add: handler_past_guards [OF assms(1-4)])
next
  assume "\<not> (allowMock E \<and> \<not> hasKey E)"
  from try_block_live [OF assms(5-7) this] show "upstream_calls (handler P E req res0) =
              [\<lparr>apiKey = OPENAI_API_KEY E, model = ''gpt-4o-mini'', temperature = ''0.7'',
                messages = [(''system'', systemPrompt E), (''user'', trim t)]\<rparr>]"
    by (simp add: upstream_calls_past_guards [OF assms(1-4)])
qed

text \<open>
  The text \<^verbatim>\<open>hello\<close> in mock mode without a credential, and the same request when a
  credential is configured as well: the first is echoed without ellipsis, the second
  goes to the provider.
\<close>

theorem mock_reply_witness:
  "req_method (request_from ''POST'' ''https://a.com'' ''text/plain'' (js ''hello''))
     \<noteq> Some (js ''OPTIONS'')
   \<and> parseAllowedOrigins mock_env \<noteq> []
   \<and> isOriginAllowed (Some (js ''https://a.com'')) (parseAllowedOrigins mock_env)
   \<and> allowMock mock_env \<and> \<not> hasKey mock_env
   \<and> decode sample_platform (request_from ''POST'' ''https://a.com'' ''text/plain'' (js ''hello''))
       = Inr (js ''hello'')
   \<and> trim (js ''hello'') \<noteq> [] \<and> length (trim (js ''hello'')) \<le> 8000
   \<and> sent (reply (handler sample_platform mock_env
        (request_from ''POST'' ''https://a.com'' ''text/plain'' (js ''hello'')) fresh))
       = Json (content_obj (js ''Mocked response (DEV_ALLOW_MOCK=1). You said: \"hello\"''))
   \<and> upstream_calls (handler sample_platform mock_env
        (request_from ''POST'' ''https://a.com'' ''text/plain'' (js ''hello'')) fresh) = []
   \<and> hasKey (mock_env\<lparr>OPENAI_API_KEY := Some (js ''sk-test'')\<rparr>)
   \<and> upstream_calls (handler sample_platform (mock_env\<lparr>OPENAI_API_KEY := Some (js ''sk-test'')\<rparr>)
        (request_from ''POST'' ''https://a.com'' ''text/plain'' (js ''hello'')) fresh)
       = [\<lparr>apiKey = Some (js ''sk-test''), model = ''gpt-4o-mini'', temperature = ''0.7'',
           messages = [(''system'', js ''You are a helpful and concise assistant.''),
                       (''user'', js ''hello'')]\<rparr>]"
proof -
  let ?req = "request_from ''POST'' ''https://a.com'' ''text/plain'' (js ''hello'')"
  let ?K = "mock_env\<lparr>OPENAI_API_KEY := Some (js ''sk-test'')\<rparr>"
  have d: "decode sample_platform ?req = Inr (js ''hello'')"
    by (rule decode_text_plain)
  have v: "trim (js ''hello'') \<noteq> []" "length (trim (js ''hello'')) \<le> 8000"
    by (simp_all add: hello_preview) (simp_all add: js_def)
  have k: "hasKey ?K" "parseAllowedOrigins ?K = parseAllowedOrigins mock_env"
    "OPENAI_API_KEY ?K = Some (js ''sk-test'')"
    "systemPrompt ?K = js ''You are a helpful and concise assistant.''"
    by (simp_all add: hasKey_def parseAllowedOrigins_def systemPrompt_def mock_env_def)
       (simp_all add: js_def trim_def is_ws_def)
  then have gk: "req_method ?req \<noteq> Some (js ''OPTIONS'')" "parseAllowedOrigins ?K \<noteq> []"
    "isOriginAllowed (headers ?req ''origin'') (parseAllowedOrigins ?K)"
    "hasKey ?K \<or> allowMock ?K"
    using guards_a_com(1,3) [of "''text/plain''" "js ''hello''"] guards_a_com(2,4) by simp_all
  from mock_reply [OF guards_a_com d v, of fresh] mock_env_flags
  have a: "sent (reply (handler sample_platform mock_env ?req fresh))
       = Json (content_obj (js ''Mocked response (DEV_ALLOW_MOCK=1). You said: \"hello\"''))"
    "upstream_calls (handler sample_platform mock_env ?req fresh) = []"
    by (simp_all add: hello_preview succeed_def) (simp add: js_def)
  from mock_reply [OF gk d v, of fresh] k
  have b: "upstream_calls (handler sample_platform ?K ?req fresh)
       = [\<lparr>apiKey = Some (js ''sk-test''), model = ''gpt-4o-mini'', temperature = ''0.7'',
           messages = [(''system'', js ''You are a helpful and concise assistant.''),
                       (''user'', js ''hello'')]\<rparr>]"
    by (simp add: hello_preview)
  from a b d v k(1) mock_env_flags guards_a_com(1,3) [of "''text/plain''" "js ''hello''"]
    guards_a_com(2)
  show ?thesis
    by simp
qed

text \<open>
  The claim as it is worded takes the echo to be the first 180 characters with white
  space collapsed. On \<open>cut_text\<close> that would be 179 letters and a blank; the handler
  trims the blank away, so the reply differs from the worded one.
\<close>

theorem mock_echo_counterexample:
  "trim cut_text = cut_text \<and> length cut_text = 181
   \<and> collapse_ws (take 180 cut_text) = replicate 179 0x61 @ [0x20]
   \<and> sent (reply (handler sample_platform mock_env
        (request_from ''POST'' ''https://a.com'' ''text/plain'' cut_text) fresh))
       = Json (content_obj (js ''Mocked response (DEV_ALLOW_MOCK=1). You said: \"'' @
           replicate 179 0x61 @ [0x2026] @ js ''\"''))
   \<and> sent (reply (handler sample_platform mock_env
        (request_from ''POST'' ''https://a.com'' ''text/plain'' cut_text) fresh))
       \<noteq> Json (content_obj (js ''Mocked response (DEV_ALLOW_MOCK=1). You said: \"'' @
           collapse_ws (take 180 cut_text) @ [0x2026] @ js ''\"''))"
proof -
  let ?req = "request_from ''POST'' ''https://a.com'' ''text/plain'' cut_text"
  have d: "decode sample_platform ?req = Inr cut_text"
    by (rule decode_text_plain)
  have v: "trim cut_text \<noteq> []" "length (trim cut_text) \<le> 8000"
    by (simp_all add: trim_cut_text length_cut_text) (simp add: cut_text_def)
  from try_block_mock [OF d v mock_env_flags]
  have s: "sent (reply (handler sample_platform mock_env ?req fresh))
       = Json (content_obj (js ''Mocked response (DEV_ALLOW_MOCK=1). You said: \"'' @
           replicate 179 0x61 @ [0x2026] @ js ''\"''))"
    by (simp add: handler_past_guards [OF guards_a_com] succeed_def trim_cut_text
        preview_cut_text length_cut_text)
  have "js ''Mocked response (DEV_ALLOW_MOCK=1). You said: \"'' @
           replicate 179 0x61 @ [0x2026] @ js ''\"''
      \<noteq> js ''Mocked response (DEV_ALLOW_MOCK=1). You said: \"'' @
           collapse_ws (take 180 cut_text) @ [0x2026] @ js ''\"''"
    by (simp add: collapse_cut_text)
  with s trim_cut_text length_cut_text collapse_cut_text show ?thesis
    by (simp add: content_obj_def)
qed

subsection \<open>The catch-all\<close>

lemma try_block_throws:
  assumes "try_block P E req res = (Inl err, calls)"
  shows "(decode P req = Inl err \<and> calls = [])
       \<or> (\<exists>t call. decode P req = Inr t \<and> calls = [call] \<and> create_completion P call = Inl err)"
  using assms
  by (auto simp: try_block_def Let_def split: sum.splits if_splits)

lemma key_env_facts:
  "parseAllowedOrigins key_env = [js ''https://a.com'']" "hasKey key_env" "\<not> allowMock key_env"
  using parseAllowedOrigins_mock_env
  by (simp_all add: key_env_def parseAllowedOrigins_def hasKey_def allowMock_def)
     (simp add: js_def)

text \<open>
  Claim C8, as the handler has it. An exception that leaves the body of the
  \<^verbatim>\<open>try\<close> statement comes from \<^verbatim>\<open>JSON.parse\<close> in the decoder or from the upstream
  call (validation throws nothing, and the fallback branch of the decoder catches its
  own parse error). It is caught by the one \<^verbatim>\<open>catch\<close> clause and rendered as
  \<^verbatim>\<open>{ error: message }\<close> on the response as the CORS step left it. The status is the
  error's \<^verbatim>\<open>status\<close> when it has one and 500 otherwise. The message is the error's
  message when it has one that is not the empty string, and \<^verbatim>\<open>Unknown error\<close> otherwise.
\<close>

theorem exception_rendering:
  assumes "req_method req \<noteq> Some (js ''OPTIONS'')"
    and "parseAllowedOrigins E \<noteq> []"
    and "isOriginAllowed (headers req ''origin'') (parseAllowedOrigins E)"
    and "hasKey E \<or> allowMock E"
    and "try_block P E req (applyCors (headers req ''origin'') (parseAllowedOrigins E) res0)
           = (Inl err, calls)"
  shows "handler P E req res0 =
           \<lparr>reply = respond
              (case err_status err of None \<Rightarrow> 500 | Some code \<Rightarrow> code)
              (error_obj (case err_message err of
                            None \<Rightarrow> js ''Unknown error''
                          | Some msg \<Rightarrow> if msg = [] then js ''Unknown error'' else msg))
              (applyCors (headers req ''origin'') (parseAllowedOrigins E) res0),
            upstream_calls = calls\<rparr>
       \<and> ((decode P req = Inl err \<and> calls = [])
          \<or> (\<exists>t call. decode P req = Inr t \<and> calls = [call]
                \<and> create_completion P call = Inl err))"
  using try_block_throws [OF assms(5)]
  by (simp add: handler_past_guards [OF assms(1-4)] assms(5) catch_status_def catch_message_def)

text \<open>
  The body \<^verbatim>\<open>not-json\<close> under \<^verbatim>\<open>application/json\<close>: the SyntaxError has no status and
  the message of the runtime, here \<^verbatim>\<open>Unexpected token\<close>.
\<close>

theorem exception_rendering_witness:
  "req_method (request_from ''POST'' ''https://a.com'' ''application/json'' (js ''not-json''))
     \<noteq> Some (js ''OPTIONS'')
   \<and> parseAllowedOrigins mock_env \<noteq> []
   \<and> isOriginAllowed (Some (js ''https://a.com'')) (parseAllowedOrigins mock_env)
   \<and> (hasKey mock_env \<or> allowMock mock_env)
   \<and> try_block sample_platform mock_env
        (request_from ''POST'' ''https://a.com'' ''application/json'' (js ''not-json''))
        (applyCors (Some (js ''https://a.com'')) (parseAllowedOrigins mock_env) fresh)
       = (Inl \<lparr>err_status = None, err_message = Some (js ''Unexpected token'')\<rparr>, [])
   \<and> statusCode (reply (handler sample_platform mock_env
        (request_from ''POST'' ''https://a.com'' ''application/json'' (js ''not-json'')) fresh))
       = 500
   \<and> sent (reply (handler sample_platform mock_env
        (request_from ''POST'' ''https://a.com'' ''application/json'' (js ''not-json'')) fresh))
       = Json (error_obj (js ''Unexpected token''))"
proof -
  let ?req = "request_from ''POST'' ''https://a.com'' ''application/json'' (js ''not-json'')"
  have t: "try_block sample_platform mock_env ?req
        (applyCors (headers ?req ''origin'') (parseAllowedOrigins mock_env) fresh)
       = (Inl \<lparr>err_status = None, err_message = Some (js ''Unexpected token'')\<rparr>, [])"
    by (simp add: try_block_def decode_not_json syntax_error_def sample_platform_def)
  have ne: "js ''Unexpected token'' \<noteq> []"
    by (simp add: js_def)
  from exception_rendering [OF guards_a_com t] ne
  have "statusCode (reply (handler sample_platform mock_env ?req fresh)) = 500"
    and "sent (reply (handler sample_platform mock_env ?req fresh))
       = Json (error_obj (js ''Unexpected token''))"
    by simp_all
  with t guards_a_com(1,3) [of "''application/json''" "js ''not-json''"] guards_a_com(2,4)
  show ?thesis
    by simp
qed

text \<open>
  The claim as it is worded gives the error's message whenever the error has one, and
  takes every exception of the decoder to the outer \<^verbatim>\<open>catch\<close>. The error
  \<open>silent_failure\<close> has the empty message; the handler answers \<^verbatim>\<open>Unknown error\<close>,
  not the empty message. And the SyntaxError that \<^verbatim>\<open>JSON.parse\<close> raises on
  \<^verbatim>\<open>not-json\<close> under an unrecognised content type is caught inside the decoder: the
  answer is the 400 of the validator, not a rendering of the exception.
\<close>

theorem empty_message_counterexample:
  "try_block failing_platform key_env
      (request_from ''POST'' ''https://a.com'' ''text/plain'' (js ''hello''))
      (applyCors (Some (js ''https://a.com'')) [js ''https://a.com''] fresh)
     = (Inl silent_failure,
        [\<lparr>apiKey = Some (js ''sk-test''), model = ''gpt-4o-mini'', temperature = ''0.7'',
          messages = [(''system'', js ''You are a helpful and concise assistant.''),
                      (''user'', js ''hello'')]\<rparr>])
   \<and> err_message silent_failure = Some []
   \<and> sent (reply (handler failing_platform key_env
        (request_from ''POST'' ''https://a.com'' ''text/plain'' (js ''hello'')) fresh))
       = Json (error_obj (js ''Unknown error''))
   \<and> sent (reply (handler failing_platform key_env
        (request_from ''POST'' ''https://a.com'' ''text/plain'' (js ''hello'')) fresh))
       \<noteq> Json (error_obj (case err_message silent_failure of
                              None \<Rightarrow> js ''Unknown error'' | Some msg \<Rightarrow> msg))
   \<and> JSON_parse (js ''not-json'') = None
   \<and> statusCode (reply (handler failing_platform mock_env
        (request_from ''POST'' ''https://a.com'' ''application/xml'' (js ''not-json'')) fresh))
       = 400"
proof -
  let ?req = "request_from ''POST'' ''https://a.com'' ''text/plain'' (js ''hello'')"
  have sp: "systemPrompt key_env = js ''You are a helpful and concise assistant.''"
    by (simp add: systemPrompt_def key_env_def mock_env_def) (simp add: js_def trim_def is_ws_def)
  have ne: "js ''hello'' \<noteq> []" "length (js ''hello'') \<le> 8000"
    by (simp_all add: js_def)
  have t: "try_block failing_platform key_env ?req res
     = (Inl silent_failure,
        [\<lparr>apiKey = Some (js ''sk-test''), model = ''gpt-4o-mini'', temperature = ''0.7'',
          messages = [(''system'', js ''You are a helpful and concise assistant.''),
                      (''user'', js ''hello'')]\<rparr>])" for res
    using ne
    by (simp add: try_block_def decode_text_plain hello_preview key_env_facts sp Let_def
        failing_platform_def)
       (simp add: key_env_def)
  have g: "req_method ?req \<noteq> Some (js ''OPTIONS'')" "parseAllowedOrigins key_env \<noteq> []"
    "isOriginAllowed (headers ?req ''origin'') (parseAllowedOrigins key_env)"
    "hasKey key_env \<or> allowMock key_env"
    using get_post_not_options
    by (simp_all add: key_env_facts isOriginAllowed_a_com)
  have s: "sent (reply (handler failing_platform key_env ?req fresh))
       = Json (error_obj (js ''Unknown error''))"
    by (simp add: handler_past_guards [OF g] t catch_message_def silent_failure_def)
  have "js ''Unknown error'' \<noteq> []"
    by (simp add: js_def)
  with s t not_json_invalid show ?thesis
    by (simp add: silent_failure_def error_obj_def handler_not_json_fallback)
qed

subsection \<open>The byte ceiling of the local harness\<close>

lemma deliver_data:
  assumes "\<not> destroyed st"
    and "total st + sum_list (map length pre) \<le> maxBytes"
  shows "deliver utf8 maxBytes st (map Data pre @ evs) =
         deliver utf8 maxBytes
           (st\<lparr>total := total st + sum_list (map length pre), chunks := chunks st @ pre\<rparr>) evs"
  using assms
proof (induction pre arbitrary: st)
  case Nil
  then show ?case by simp
next
  case (Cons c pre)
  let ?st = "st\<lparr>total := total st + length c, chunks := chunks st @ [c]\<rparr>"
  from Cons.prems have step: "on_data maxBytes c st = ?st"
    by (simp add: on_data_def Let_def)
  from Cons.prems have "\<not> destroyed ?st"
    and "total ?st + sum_list (map length pre) \<le> maxBytes"
    by simp_all
  from Cons.IH [OF this] Cons.prems(1) step show ?case
    by (simp add: add.assoc)
qed

text \<open>
  What the reader and the callback do when the stream delivers chunks that stay within
  the ceiling and then a chunk that takes the running total over it: the reader rejects
  with the 413-tagged error and destroys the stream at that chunk, which is not buffered,
  and whatever would follow is not looked at; the callback then writes status 413 with
  \<^verbatim>\<open>Payload too large\<close> on the response of the destroyed socket, and does not run the
  pipeline handler \<open>h\<close>.
\<close>

lemma oversized_body_aborts:
  assumes "sum_list (map length pre) \<le> maxBytes"
    and "maxBytes < sum_list (map length pre) + length c"
  shows "readRequestBody utf8 maxBytes (map Data pre @ Data c # rest) =
           \<lparr>total = sum_list (map length pre) + length c, chunks = pre,
            settled = Some (Inl too_large), destroyed = True\<rparr>"
    and "maxBytes = 1000000 \<Longrightarrow> startsWith u (js ''/api/chat'') \<Longrightarrow>
           server h utf8 (Some u) m hs (map Data pre @ Data c # rest)
             = \<lparr>written = Plain 413 (Some (js ''Payload too large'')),
                socket_destroyed = True\<rparr>"
proof -
  let ?init = "\<lparr>total = 0, chunks = [], settled = None, destroyed = False\<rparr>"
  let ?mid = "\<lparr>total = sum_list (map length pre), chunks = pre, settled = None,
              destroyed = False\<rparr>"
  let ?fin = "\<lparr>total = sum_list (map length pre) + length c, chunks = pre,
              settled = Some (Inl too_large), destroyed = True\<rparr>"
  have "deliver utf8 maxBytes ?init (map Data pre @ Data c # rest)
      = deliver utf8 maxBytes ?mid (Data c # rest)"
    using deliver_data [of ?init pre maxBytes utf8 "Data c # rest"] assms(1) by simp
  moreover have "on_data maxBytes c ?mid = ?fin"
    using assms(2) by (simp add: on_data_def Let_def settle_def)
  moreover have "deliver utf8 maxBytes ?fin rest = ?fin"
    by (cases rest) simp_all
  ultimately show r: "readRequestBody utf8 maxBytes (map Data pre @ Data c # rest) = ?fin"
    by (simp add: readRequestBody_def)
  show "server h utf8 (Some u) m hs (map Data pre @ Data c # rest)
      = \<lparr>written = Plain 413 (Some (js ''Payload too large'')), socket_destroyed = True\<rparr>"
    if "maxBytes = 1000000" "startsWith u (js ''/api/chat'')"
    using r that by (simp add: server_def Let_def too_large_def)
qed

lemma api_chat_route: "startsWith (js ''/api/chat'') (js ''/api/chat'')"
  by (simp add: startsWith_def)

text \<open>
  Claim C9 says that a body over the ceiling is answered with a 413 rejection. On a body
  of 600,000 bytes followed by a chunk of 400,001 bytes the harness does abort the
  buffering at the second chunk, destroys the connection and leaves the pipeline handler
  alone; but it destroys the connection first and writes the 413 afterwards, on the
  socket it has just torn down, so no response reaches the client. A body of three bytes
  on the same route is handed to the handler and answered.
\<close>

theorem oversized_body_response_lost:
  "readRequestBody utf8 1000000
      (map Data [replicate 600000 0] @ Data (replicate 400001 0) # [End])
     = \<lparr>total = 1000001, chunks = [replicate 600000 0],
        settled = Some (Inl too_large), destroyed = True\<rparr>
   \<and> server h utf8 (Some (js ''/api/chat'')) (Some (js ''POST'')) Map.empty
        (map Data [replicate 600000 0] @ Data (replicate 400001 0) # [End])
     = \<lparr>written = Plain 413 (Some (js ''Payload too large'')), socket_destroyed = True\<rparr>
   \<and> client_receives
        (server h utf8 (Some (js ''/api/chat'')) (Some (js ''POST'')) Map.empty
          (map Data [replicate 600000 0] @ Data (replicate 400001 0) # [End]))
     = None
   \<and> client_receives
        (server h utf8 (Some (js ''/api/chat'')) (Some (js ''POST'')) Map.empty
          [Data [1, 2, 3], End])
     = Some (Handled (h (createReqLike (Some (js ''POST'')) Map.empty (utf8 [1, 2, 3]))))"
proof -
  let ?evs = "map Data [replicate 600000 0] @ Data (replicate 400001 0) # [End]"
  have a: "sum_list (map length [replicate 600000 (0 :: 8 word)]) \<le> 1000000"
    and b: "(1000000 :: nat) < sum_list (map length [replicate 600000 (0 :: 8 word)])
        + length (replicate 400001 (0 :: 8 word))"
    by simp_all
  from oversized_body_aborts(1) [OF a b, of utf8 "[End]"]
  have r: "readRequestBody utf8 1000000 ?evs
     = \<lparr>total = 1000001, chunks = [replicate 600000 0],
        settled = Some (Inl too_large), destroyed = True\<rparr>"
    by simp
  from oversized_body_aborts(2) [OF a b refl api_chat_route,
      of h utf8 "Some (js ''POST'')" Map.empty "[End]"]
  have s: "server h utf8 (Some (js ''/api/chat'')) (Some (js ''POST'')) Map.empty ?evs
     = \<lparr>written = Plain 413 (Some (js ''Payload too large'')), socket_destroyed = True\<rparr>" .
  have c: "client_receives
        (server h utf8 (Some (js ''/api/chat'')) (Some (js ''POST'')) Map.empty ?evs) = None"
    using s by (simp add: client_receives_def)
  have "readRequestBody utf8 1000000 [Data [1, 2, 3], End]
     = \<lparr>total = 3, chunks = [[1, 2, 3]], settled = Some (Inr (utf8 [1, 2, 3])),
        destroyed = False\<rparr>"
    by (simp add: readRequestBody_def on_data_def on_end_def settle_def Let_def)
  then have d: "client_receives
        (server h utf8 (Some (js ''/api/chat'')) (Some (js ''POST'')) Map.empty
          [Data [1, 2, 3], End])
     = Some (Handled (h (createReqLike (Some (js ''POST'')) Map.empty (utf8 [1, 2, 3]))))"
    by (simp add: server_def Let_def client_receives_def api_chat_route)
  from r s c d show ?thesis
    by blast
qed

end
